theory Spec2Isabelle
  imports Main "HOL-Library.AList" "HOL-Library.Char_ord" "HOL-Library.List_Lexorder"
    "HOL-Library.Sublist"
begin

section \<open>Go strings\<close>

text \<open>
  A Go \<^verbatim>\<open>string\<close> is a sequence of bytes; it is modelled as \<^typ>\<open>string\<close>, a list of
  8-bit characters.  The functions of package \<^verbatim>\<open>strings\<close> that the program calls are
  written out below, for a separator of one byte where the program passes one.
\<close>

text \<open>\<^verbatim>\<open>strings.Cut(s, sep)\<close>: the text before and after the first \<open>sep\<close>, and whether
  \<open>sep\<close> was found; without a separator the whole string is the part before.\<close>

fun Cut :: "string \<Rightarrow> char \<Rightarrow> string \<times> string \<times> bool" where
  "Cut [] sep = ([], [], False)"
| "Cut (c # s) sep =
     (if c = sep then ([], s, True)
      else (case Cut s sep of (before, after, found) \<Rightarrow> (c # before, after, found)))"

text \<open>The value of a byte.\<close>

definition byte :: "char \<Rightarrow> nat" where
  "byte c = of_char c"

text \<open>\<^verbatim>\<open>strings.Contains(s, string(c))\<close> for a single byte.\<close>

definition ContainsByte :: "string \<Rightarrow> char \<Rightarrow> bool" where
  "ContainsByte s c = List.member s c"

subsection \<open>\<^verbatim>\<open>strings.TrimSpace\<close>\<close>

text \<open>
  \<^verbatim>\<open>strings.TrimSpace\<close> removes leading and trailing white space as Unicode defines it.
  It walks over ASCII bytes itself and, at the first byte that is not ASCII, hands the
  rest to \<^verbatim>\<open>TrimFunc\<close> or \<^verbatim>\<open>TrimRightFunc\<close> with \<^verbatim>\<open>unicode.IsSpace\<close>, which decode UTF-8.
  A rune is a natural number here.
\<close>

definition RuneError :: nat where
  "RuneError = 65533"

definition in_range :: "nat \<Rightarrow> nat \<Rightarrow> nat \<Rightarrow> bool" where
  "in_range lo hi b = (lo \<le> b \<and> b \<le> hi)"

text \<open>\<^verbatim>\<open>utf8.DecodeRuneInString\<close>: the rune at the start of \<open>s\<close> and its width in bytes;
  \<open>(RuneError, 1)\<close> for an encoding that is not valid, \<open>(RuneError, 0)\<close> for the empty
  string.  \<open>lo\<close> and \<open>hi\<close> are the accept range of the second byte.\<close>

definition DecodeRuneInString :: "string \<Rightarrow> nat \<times> nat" where
  "DecodeRuneInString s =
     (case map byte s of
        [] \<Rightarrow> (RuneError, 0)
      | s0 # t \<Rightarrow>
          if s0 < 128 then (s0, 1)
          else if s0 < 194 \<or> 244 < s0 then (RuneError, 1)
          else
            (let sz = (if s0 < 224 then 2 else if s0 < 240 then 3 else 4 :: nat);
                 lo = (if s0 = 224 then 160 else if s0 = 240 then 144 else 128 :: nat);
                 hi = (if s0 = 237 then 159 else if s0 = 244 then 143 else 191 :: nat)
             in if length s < sz then (RuneError, 1)
                else if \<not> in_range lo hi (t ! 0) then (RuneError, 1)
                else if sz = 2 then (s0 mod 32 * 64 + t ! 0 mod 64, 2)
                else if \<not> in_range 128 191 (t ! 1) then (RuneError, 1)
                else if sz = 3 then (s0 mod 16 * 4096 + t ! 0 mod 64 * 64 + t ! 1 mod 64, 3)
                else if \<not> in_range 128 191 (t ! 2) then (RuneError, 1)
                else (s0 mod 8 * 262144 + t ! 0 mod 64 * 4096 + t ! 1 mod 64 * 64
                      + t ! 2 mod 64, 4)))"

text \<open>\<^verbatim>\<open>utf8.RuneStart(b)\<close>: \<open>b\<close> is not a continuation byte.\<close>

definition RuneStart :: "char \<Rightarrow> bool" where
  "RuneStart b = (\<not> in_range 128 191 (byte b))"

text \<open>The loop of \<^verbatim>\<open>utf8.DecodeLastRuneInString\<close> that steps back from \<open>start\<close> to the
  start of a rune, no further than \<open>lim\<close>.\<close>

function stepBack :: "string \<Rightarrow> int \<Rightarrow> int \<Rightarrow> int" where
  "stepBack s start lim =
     (if lim \<le> start then
        (if RuneStart (s ! nat start) then start else stepBack s (start - 1) lim)
      else start)"
  by pat_completeness auto
termination
  by (relation "measure (\<lambda>(s, start, lim). nat (start - lim + 1))") auto

declare stepBack.simps [simp del]

definition DecodeLastRuneInString :: "string \<Rightarrow> nat \<times> nat" where
  "DecodeLastRuneInString s =
     (if s = [] then (RuneError, 0)
      else if byte (last s) < 128 then (byte (last s), 1)
      else
        (let end = int (length s);
             start = max 0 (stepBack s (end - 2) (max 0 (end - 4)));
             d = DecodeRuneInString (drop (nat start) s)
         in if start + int (snd d) \<noteq> end then (RuneError, 1) else d))"

text \<open>\<^verbatim>\<open>unicode.IsSpace\<close>: the white space of Latin-1, and of the table \<^verbatim>\<open>White_Space\<close>
  beyond it.\<close>

definition IsSpace :: "nat \<Rightarrow> bool" where
  "IsSpace r =
     (if r \<le> 255 then List.member [9, 10, 11, 12, 13, 32, 133, 160] r
      else r = 5760 \<or> in_range 8192 8202 r \<or> r = 8232 \<or> r = 8233 \<or> r = 8239
           \<or> r = 8287 \<or> r = 12288)"

text \<open>\<^verbatim>\<open>asciiSpace\<close>: tab, line feed, vertical tab, form feed, carriage return, space.\<close>

definition asciiSpace :: "char \<Rightarrow> bool" where
  "asciiSpace c = List.member [9, 10, 11, 12, 13, 32] (byte c)"

lemma DecodeRuneInString_width: "s \<noteq> [] \<Longrightarrow> 1 \<le> snd (DecodeRuneInString s)"
  by (cases s) (simp_all add: DecodeRuneInString_def Let_def)

lemma stepBack_le: "stepBack s start lim \<le> start"
proof (induction s start lim rule: stepBack.induct)
  case (1 s start lim)
  then show ?case
    by (subst stepBack.simps) (auto simp: le_diff_eq)
qed

lemma DecodeLastRuneInString_width: "s \<noteq> [] \<Longrightarrow> 1 \<le> snd (DecodeLastRuneInString s)"
proof -
  assume ne: "s \<noteq> []"
  define start where "start = max 0 (stepBack s (int (length s) - 2) (max 0 (int (length s) - 4)))"
  have "start < int (length s)"
    using stepBack_le [of s "int (length s) - 2" "max 0 (int (length s) - 4)"] ne
    by (simp add: start_def)
  moreover have "0 \<le> start"
    by (simp add: start_def)
  ultimately have "nat start < length s"
    by linarith
  then have "drop (nat start) s \<noteq> []"
    by simp
  then have "1 \<le> snd (DecodeRuneInString (drop (nat start) s))"
    by (rule DecodeRuneInString_width)
  then show ?thesis
    using ne by (simp add: DecodeLastRuneInString_def Let_def start_def)
qed

text \<open>\<^verbatim>\<open>indexFunc(s, unicode.IsSpace, false)\<close>: the byte index of the first rune that is
  not white space, \<open>None\<close> for Go's \<open>-1\<close>.\<close>

function indexNotSpace :: "string \<Rightarrow> nat option" where
  "indexNotSpace s =
     (if s = [] then None
      else if \<not> IsSpace (fst (DecodeRuneInString s)) then Some 0
      else map_option (\<lambda>i. snd (DecodeRuneInString s) + i)
             (indexNotSpace (drop (snd (DecodeRuneInString s)) s)))"
  by pat_completeness auto
termination
proof (relation "measure length")
  show "wf (measure length)" by simp
next
  fix s :: string
  assume "s \<noteq> []"
  then show "(drop (snd (DecodeRuneInString s)) s, s) \<in> measure length"
    using DecodeRuneInString_width [of s] by simp
qed

declare indexNotSpace.simps [simp del]

text \<open>\<^verbatim>\<open>lastIndexFunc(s, unicode.IsSpace, false)\<close>: the byte index of the last rune that
  is not white space.\<close>

function lastIndexNotSpace :: "string \<Rightarrow> nat option" where
  "lastIndexNotSpace s =
     (if s = [] then None
      else if \<not> IsSpace (fst (DecodeLastRuneInString s))
        then Some (length s - snd (DecodeLastRuneInString s))
      else lastIndexNotSpace (take (length s - snd (DecodeLastRuneInString s)) s))"
  by pat_completeness auto
termination
proof (relation "measure length")
  show "wf (measure length)" by simp
next
  fix s :: string
  assume "s \<noteq> []"
  then show "(take (length s - snd (DecodeLastRuneInString s)) s, s) \<in> measure length"
    using DecodeLastRuneInString_width [of s] by (cases s) auto
qed

declare lastIndexNotSpace.simps [simp del]

text \<open>\<^verbatim>\<open>TrimLeftFunc\<close>, \<^verbatim>\<open>TrimRightFunc\<close> and \<^verbatim>\<open>TrimFunc\<close> with \<^verbatim>\<open>unicode.IsSpace\<close>.\<close>

definition TrimLeftSpace :: "string \<Rightarrow> string" where
  "TrimLeftSpace s = (case indexNotSpace s of None \<Rightarrow> [] | Some i \<Rightarrow> drop i s)"

definition TrimRightSpace :: "string \<Rightarrow> string" where
  "TrimRightSpace s =
     (case lastIndexNotSpace s of
        None \<Rightarrow> []
      | Some i \<Rightarrow>
          if 128 \<le> byte (s ! i) then take (i + snd (DecodeRuneInString (drop i s))) s
          else take (Suc i) s)"

definition TrimFuncSpace :: "string \<Rightarrow> string" where
  "TrimFuncSpace s = TrimRightSpace (TrimLeftSpace s)"

text \<open>The second loop of \<^verbatim>\<open>TrimSpace\<close>, on \<^verbatim>\<open>s[start:]\<close>: it drops ASCII white space
  from the end.\<close>

function TrimSpace_stop :: "string \<Rightarrow> string" where
  "TrimSpace_stop s =
     (if s = [] then []
      else if 128 \<le> byte (last s) then TrimRightSpace s
      else if asciiSpace (last s) then TrimSpace_stop (butlast s)
      else s)"
  by pat_completeness auto
termination
  by (relation "measure length") auto

declare TrimSpace_stop.simps [simp del]

fun TrimSpace :: "string \<Rightarrow> string" where
  "TrimSpace [] = []"
| "TrimSpace (c # s) =
     (if 128 \<le> byte c then TrimFuncSpace (c # s)
      else if asciiSpace c then TrimSpace s
      else TrimSpace_stop (c # s))"

text \<open>\<^verbatim>\<open>strings.SplitN(s, sep, 2)\<close> for a separator of one byte: the text before and after
  the first separator, or \<open>s\<close> alone when there is none.\<close>

definition SplitN_2 :: "string \<Rightarrow> char \<Rightarrow> string list" where
  "SplitN_2 s sep =
     (case Cut s sep of (before, after, found) \<Rightarrow> if found then [before, after] else [s])"

section \<open>Package net/url: query escaping\<close>

text \<open>
  The program builds and reads query strings with \<^verbatim>\<open>url.Values.Add\<close>,
  \<^verbatim>\<open>url.Values.Encode\<close> and \<^verbatim>\<open>(*url.URL).Query\<close>.  These are functions of Go's standard
  library; the definitions below follow \<^verbatim>\<open>net/url/url.go\<close>.
\<close>

datatype encoding =
    encodePath
  | encodePathSegment
  | encodeHost
  | encodeZone
  | encodeUserPassword
  | encodeQueryComponent
  | encodeFragment

datatype url_error =
    EscapeError string
  | InvalidHostError string
  | InvalidSemicolonSeparator
  | InvalidControlCharacter
  | MissingProtocolScheme
  | FirstPathSegmentColon
  | MissingBracketInHost
  | InvalidPort string
  | InvalidUserinfo

definition isAlnum :: "char \<Rightarrow> bool" where
  "isAlnum c =
     (CHR ''a'' \<le> c \<and> c \<le> CHR ''z'' \<or> CHR ''A'' \<le> c \<and> c \<le> CHR ''Z''
      \<or> CHR ''0'' \<le> c \<and> c \<le> CHR ''9'')"

definition ishex :: "char \<Rightarrow> bool" where
  "ishex c =
     (CHR ''0'' \<le> c \<and> c \<le> CHR ''9'' \<or> CHR ''a'' \<le> c \<and> c \<le> CHR ''f''
      \<or> CHR ''A'' \<le> c \<and> c \<le> CHR ''F'')"

definition unhex :: "char \<Rightarrow> nat" where
  "unhex c =
     (if CHR ''0'' \<le> c \<and> c \<le> CHR ''9'' then byte c - byte (CHR ''0'')
      else if CHR ''a'' \<le> c \<and> c \<le> CHR ''f'' then byte c - byte (CHR ''a'') + 10
      else if CHR ''A'' \<le> c \<and> c \<le> CHR ''F'' then byte c - byte (CHR ''A'') + 10
      else 0)"

definition upperhex :: "nat \<Rightarrow> char" where
  "upperhex n = ''0123456789ABCDEF'' ! n"

text \<open>\<^verbatim>\<open>shouldEscape(c, mode)\<close>: whether byte \<open>c\<close> is written as \<open>%XX\<close> in the part of
  a URL that \<open>mode\<close> names.\<close>

definition shouldEscape :: "char \<Rightarrow> encoding \<Rightarrow> bool" where
  "shouldEscape c mode =
     (if isAlnum c then False
      else if (mode = encodeHost \<or> mode = encodeZone)
              \<and> List.member ''!$&'()*+,;=:[]<>\"'' c then False
      else if List.member ''-_.~'' c then False
      else if List.member ''$&+,/:;=?@'' c then
        (case mode of
           encodePath \<Rightarrow> c = CHR ''?''
         | encodePathSegment \<Rightarrow> List.member ''/;,?'' c
         | encodeUserPassword \<Rightarrow> List.member ''@/?:'' c
         | encodeQueryComponent \<Rightarrow> True
         | encodeFragment \<Rightarrow> False
         | _ \<Rightarrow> True)
      else if mode = encodeFragment \<and> List.member ''!()*'' c then False
      else True)"

text \<open>\<^verbatim>\<open>escape(s, mode)\<close>: a byte to escape becomes \<open>%\<close> and two upper-case hex digits,
  except the space of a query component, which becomes \<open>+\<close>.\<close>

definition escapeByte :: "encoding \<Rightarrow> char \<Rightarrow> string" where
  "escapeByte mode c =
     (if shouldEscape c mode then
        (if c = CHR '' '' \<and> mode = encodeQueryComponent then ''+''
         else [CHR ''%'', upperhex (byte c div 16), upperhex (byte c mod 16)])
      else [c])"

definition escape :: "string \<Rightarrow> encoding \<Rightarrow> string" where
  "escape s mode = concat (map (escapeByte mode) s)"

text \<open>\<^verbatim>\<open>unescape(s, mode)\<close>.  Go checks the whole string first and decodes it in a second
  pass; the check fails at the first offending position, so one pass that does both
  returns the same value.\<close>

fun unescape :: "string \<Rightarrow> encoding \<Rightarrow> url_error + string" where
  "unescape [] mode = Inr []"
| "unescape (c # s) mode =
     (if c = CHR ''%'' then
        (case s of
           a # b # t \<Rightarrow>
             if \<not> ishex a \<or> \<not> ishex b then Inl (EscapeError [c, a, b])
             else if mode = encodeHost \<and> unhex a < 8 \<and> [c, a, b] \<noteq> ''%25''
               then Inl (EscapeError [c, a, b])
             else if mode = encodeZone \<and> [c, a, b] \<noteq> ''%25''
                     \<and> unhex a * 16 + unhex b \<noteq> 32
                     \<and> shouldEscape (char_of (unhex a * 16 + unhex b)) encodeHost
               then Inl (EscapeError [c, a, b])
             else (case unescape t mode of
                     Inl e \<Rightarrow> Inl e
                   | Inr r \<Rightarrow> Inr (char_of (unhex a * 16 + unhex b) # r))
         | _ \<Rightarrow> Inl (EscapeError (c # s)))
      else if c = CHR ''+'' then
        (case unescape s mode of
           Inl e \<Rightarrow> Inl e
         | Inr r \<Rightarrow> Inr ((if mode = encodeQueryComponent then CHR '' '' else CHR ''+'') # r))
      else if (mode = encodeHost \<or> mode = encodeZone) \<and> byte c < 128
              \<and> shouldEscape c encodeHost then Inl (InvalidHostError [c])
      else (case unescape s mode of
              Inl e \<Rightarrow> Inl e
            | Inr r \<Rightarrow> Inr (c # r)))"

definition QueryEscape :: "string \<Rightarrow> string" where
  "QueryEscape s = escape s encodeQueryComponent"

definition QueryUnescape :: "string \<Rightarrow> url_error + string" where
  "QueryUnescape s = unescape s encodeQueryComponent"

section \<open>\<^verbatim>\<open>url.Values\<close>, the ParameterMap\<close>

text \<open>
  \<^verbatim>\<open>type Values map[string][]string\<close>.  The map is an association list with one entry
  per key; \<open>Values_index\<close> is the index expression \<^verbatim>\<open>v[key]\<close>, which is the nil (empty)
  slice for a key that is absent.  Go iterates over a map in no fixed order; wherever the
  program does, the model visits the entries in the order of the list, and the facts
  below are stated about the lookup \<^term>\<open>map_of\<close>, which does not depend on that order.
\<close>

type_synonym Values = "(string \<times> string list) list"

definition Values_index :: "Values \<Rightarrow> string \<Rightarrow> string list" where
  "Values_index v key = (case map_of v key of None \<Rightarrow> [] | Some vs \<Rightarrow> vs)"

text \<open>\<^verbatim>\<open>func (v Values) Add(key, value string) { v[key] = append(v[key], value) }\<close>\<close>

definition Values_Add :: "Values \<Rightarrow> string \<Rightarrow> string \<Rightarrow> Values" where
  "Values_Add v key val = AList.update key (Values_index v key @ [val]) v"

text \<open>\<^verbatim>\<open>func (v Values) Encode() string\<close>: the keys in sorted order, each value of a key
  as \<open>key=value\<close> with both sides query-escaped, the pairs joined by \<open>&\<close>.\<close>

definition Values_Encode_pairs :: "Values \<Rightarrow> string list" where
  "Values_Encode_pairs v =
     concat (map (\<lambda>k. map (\<lambda>val. QueryEscape k @ ''='' @ QueryEscape val) (Values_index v k))
                 (sort (remdups (map fst v))))"

fun Join :: "string list \<Rightarrow> string \<Rightarrow> string" where
  "Join [] sep = []"
| "Join [x] sep = x"
| "Join (x # y # ys) sep = x @ sep @ Join (y # ys) sep"

definition Values_Encode :: "Values \<Rightarrow> string" where
  "Values_Encode v = Join (Values_Encode_pairs v) ''&''"

text \<open>\<^verbatim>\<open>parseQuery(m, query)\<close>: the loop of \<^verbatim>\<open>url.ParseQuery\<close>.  A malformed pair is left
  out and the first error is remembered; a pair holding a semicolon sets the error
  anew.\<close>

lemma Cut_after_le: "length (fst (snd (Cut s sep))) \<le> length s"
  by (induction s) (auto split: prod.splits)

lemma Cut_after_shorter: "query \<noteq> [] \<Longrightarrow> length (fst (snd (Cut query sep))) < length query"
  using Cut_after_le [of "tl query" sep] by (cases query) (auto split: prod.splits)

function parseQuery :: "Values \<Rightarrow> url_error option \<Rightarrow> string \<Rightarrow> Values \<times> url_error option" where
  "parseQuery m err query =
     (if query = [] then (m, err)
      else
        let pair = fst (Cut query (CHR ''&''));
            rest = fst (snd (Cut query (CHR ''&'')))
        in if ContainsByte pair (CHR '';'') then parseQuery m (Some InvalidSemicolonSeparator) rest
           else if pair = [] then parseQuery m err rest
           else
             (case QueryUnescape (fst (Cut pair (CHR ''=''))) of
                Inl err1 \<Rightarrow> parseQuery m (if err = None then Some err1 else err) rest
              | Inr key \<Rightarrow>
                  (case QueryUnescape (fst (snd (Cut pair (CHR ''='')))) of
                     Inl err1 \<Rightarrow> parseQuery m (if err = None then Some err1 else err) rest
                   | Inr val \<Rightarrow> parseQuery (Values_Add m key val) err rest)))"
  by pat_completeness auto
termination
  by (relation "measure (\<lambda>(m, err, query). length query)") (auto simp: Cut_after_shorter)

declare parseQuery.simps [simp del]

definition ParseQuery :: "string \<Rightarrow> Values \<times> url_error option" where
  "ParseQuery query = parseQuery [] None query"

section \<open>Package net/url: parsing and printing a URL\<close>

text \<open>
  \<^verbatim>\<open>url.Parse\<close> and \<^verbatim>\<open>(*url.URL).String\<close>, again after \<^verbatim>\<open>net/url/url.go\<close>.  A \<^verbatim>\<open>*url.URL\<close>
  that is nil is the \<open>Inl\<close> of a result; the \<^verbatim>\<open>*Userinfo\<close> field is an option.
\<close>

record Userinfo =
  username :: string
  password :: string
  passwordSet :: bool

record URL =
  Scheme :: string
  Opaque :: string
  User :: "Userinfo option"
  Host :: string
  Path :: string
  RawPath :: string
  OmitHost :: bool
  ForceQuery :: bool
  RawQuery :: string
  Fragment :: string
  RawFragment :: string

text \<open>\<^verbatim>\<open>new(URL)\<close>, the zero value.\<close>

definition new_URL :: URL where
  "new_URL = \<lparr>Scheme = [], Opaque = [], User = None, Host = [], Path = [], RawPath = [],
     OmitHost = False, ForceQuery = False, RawQuery = [], Fragment = [], RawFragment = []\<rparr>"

text \<open>\<^verbatim>\<open>type Error struct { Op string; URL string; Err error }\<close>\<close>

datatype Error = Error (Op: string) (URL: string) (Err: url_error)

fun IndexByte :: "string \<Rightarrow> char \<Rightarrow> nat option" where
  "IndexByte [] c = None"
| "IndexByte (x # s) c =
     (if x = c then Some 0 else (case IndexByte s c of None \<Rightarrow> None | Some i \<Rightarrow> Some (Suc i)))"

fun LastIndexByte :: "string \<Rightarrow> char \<Rightarrow> nat option" where
  "LastIndexByte [] c = None"
| "LastIndexByte (x # s) c =
     (case LastIndexByte s c of
        Some i \<Rightarrow> Some (Suc i)
      | None \<Rightarrow> (if x = c then Some 0 else None))"

text \<open>\<^verbatim>\<open>strings.Index(s, substr)\<close>.\<close>

fun Index :: "string \<Rightarrow> string \<Rightarrow> nat option" where
  "Index [] substr = (if substr = [] then Some 0 else None)"
| "Index (x # s) substr =
     (if prefix substr (x # s) then Some 0
      else (case Index s substr of None \<Rightarrow> None | Some i \<Rightarrow> Some (Suc i)))"

definition isUpper :: "char \<Rightarrow> bool" where
  "isUpper c = (CHR ''A'' \<le> c \<and> c \<le> CHR ''Z'')"

definition isLetter :: "char \<Rightarrow> bool" where
  "isLetter c = (CHR ''a'' \<le> c \<and> c \<le> CHR ''z'' \<or> CHR ''A'' \<le> c \<and> c \<le> CHR ''Z'')"

definition isDigit :: "char \<Rightarrow> bool" where
  "isDigit c = (CHR ''0'' \<le> c \<and> c \<le> CHR ''9'')"

text \<open>\<^verbatim>\<open>strings.ToLower\<close> on the scheme, which \<open>getScheme\<close> has restricted to ASCII
  letters, digits, \<open>+\<close>, \<open>-\<close> and \<open>.\<close>: the upper-case letters are lowered.\<close>

definition ToLower :: "string \<Rightarrow> string" where
  "ToLower s = map (\<lambda>c. if isUpper c then char_of (byte c + 32) else c) s"

definition stringContainsCTLByte :: "string \<Rightarrow> bool" where
  "stringContainsCTLByte s = list_ex (\<lambda>b. byte b < 32 \<or> byte b = 127) s"

text \<open>\<^verbatim>\<open>getScheme(rawURL)\<close>: the loop over the bytes, \<open>seen\<close> being \<^verbatim>\<open>rawURL[:i]\<close>.\<close>

fun getScheme_from :: "string \<Rightarrow> string \<Rightarrow> string \<Rightarrow> url_error + string \<times> string" where
  "getScheme_from rawURL seen [] = Inr ([], rawURL)"
| "getScheme_from rawURL seen (c # rest) =
     (if isLetter c then getScheme_from rawURL (seen @ [c]) rest
      else if isDigit c \<or> c = CHR ''+'' \<or> c = CHR ''-'' \<or> c = CHR ''.'' then
        (if seen = [] then Inr ([], rawURL) else getScheme_from rawURL (seen @ [c]) rest)
      else if c = CHR '':'' then
        (if seen = [] then Inl MissingProtocolScheme else Inr (seen, rest))
      else Inr ([], rawURL))"

definition getScheme :: "string \<Rightarrow> url_error + string \<times> string" where
  "getScheme rawURL = getScheme_from rawURL [] rawURL"

definition validOptionalPort :: "string \<Rightarrow> bool" where
  "validOptionalPort port =
     (case port of
        [] \<Rightarrow> True
      | c # digits \<Rightarrow> c = CHR '':'' \<and> list_all isDigit digits)"

definition validUserinfo :: "string \<Rightarrow> bool" where
  "validUserinfo s = list_all (\<lambda>r. isAlnum r \<or> List.member ''-._:~!$&'()*+,;=%@'' r) s"

text \<open>\<^verbatim>\<open>parseHost(host)\<close>: a bracketed IP literal may carry a port and a zone, any other
  host a port after its last colon.\<close>

definition parseHost :: "string \<Rightarrow> url_error + string" where
  "parseHost host =
     (if prefix ''['' host then
        (case LastIndexByte host (CHR '']'') of
           None \<Rightarrow> Inl MissingBracketInHost
         | Some i \<Rightarrow>
             if \<not> validOptionalPort (drop (Suc i) host) then Inl (InvalidPort (drop (Suc i) host))
             else
               (case Index (take i host) ''%25'' of
                  Some zone \<Rightarrow>
                    (case unescape (take zone host) encodeHost of
                       Inl e \<Rightarrow> Inl e
                     | Inr host1 \<Rightarrow>
                         (case unescape (drop zone (take i host)) encodeZone of
                            Inl e \<Rightarrow> Inl e
                          | Inr host2 \<Rightarrow>
                              (case unescape (drop i host) encodeHost of
                                 Inl e \<Rightarrow> Inl e
                               | Inr host3 \<Rightarrow> Inr (host1 @ host2 @ host3))))
                | None \<Rightarrow> unescape host encodeHost))
      else
        (case LastIndexByte host (CHR '':'') of
           Some i \<Rightarrow>
             if \<not> validOptionalPort (drop i host) then Inl (InvalidPort (drop i host))
             else unescape host encodeHost
         | None \<Rightarrow> unescape host encodeHost))"

definition parseAuthority :: "string \<Rightarrow> url_error + Userinfo option \<times> string" where
  "parseAuthority authority =
     (case LastIndexByte authority (CHR ''@'') of
        None \<Rightarrow>
          (case parseHost authority of Inl e \<Rightarrow> Inl e | Inr host \<Rightarrow> Inr (None, host))
      | Some i \<Rightarrow>
          (case parseHost (drop (Suc i) authority) of
             Inl e \<Rightarrow> Inl e
           | Inr host \<Rightarrow>
               let userinfo = take i authority in
               if \<not> validUserinfo userinfo then Inl InvalidUserinfo
               else if \<not> ContainsByte userinfo (CHR '':'') then
                 (case unescape userinfo encodeUserPassword of
                    Inl e \<Rightarrow> Inl e
                  | Inr name \<Rightarrow>
                      Inr (Some \<lparr>username = name, password = [], passwordSet = False\<rparr>, host))
               else
                 (case unescape (fst (Cut userinfo (CHR '':''))) encodeUserPassword of
                    Inl e \<Rightarrow> Inl e
                  | Inr name \<Rightarrow>
                      (case unescape (fst (snd (Cut userinfo (CHR '':'')))) encodeUserPassword of
                         Inl e \<Rightarrow> Inl e
                       | Inr pw \<Rightarrow>
                           Inr (Some \<lparr>username = name, password = pw, passwordSet = True\<rparr>,
                                host)))))"

text \<open>\<^verbatim>\<open>(*URL).setPath\<close> and \<^verbatim>\<open>(*URL).setFragment\<close>: the raw form is kept only when it is
  not the default escaping of the decoded one.\<close>

definition setPath :: "URL \<Rightarrow> string \<Rightarrow> url_error + URL" where
  "setPath u p =
     (case unescape p encodePath of
        Inl e \<Rightarrow> Inl e
      | Inr path \<Rightarrow>
          Inr (u\<lparr>Path := path, RawPath := (if p = escape path encodePath then [] else p)\<rparr>))"

definition setFragment :: "URL \<Rightarrow> string \<Rightarrow> url_error + URL" where
  "setFragment u f =
     (case unescape f encodeFragment of
        Inl e \<Rightarrow> Inl e
      | Inr frag \<Rightarrow>
          Inr (u\<lparr>Fragment := frag,
                 RawFragment := (if f = escape frag encodeFragment then [] else f)\<rparr>))"

text \<open>\<^verbatim>\<open>parse(rawURL, viaRequest)\<close> with \<^verbatim>\<open>viaRequest = false\<close>, as \<^verbatim>\<open>url.Parse\<close> calls it.\<close>

definition parse :: "string \<Rightarrow> url_error + URL" where
  "parse rawURL =
     (if stringContainsCTLByte rawURL then Inl InvalidControlCharacter
      else if rawURL = ''*'' then Inr (new_URL\<lparr>Path := ''*''\<rparr>)
      else
        (case getScheme rawURL of
           Inl e \<Rightarrow> Inl e
         | Inr (scheme, rest0) \<Rightarrow>
             let force = (suffix ''?'' rest0 \<and> count_list rest0 (CHR ''?'') = 1);
                 rest = (if force then butlast rest0 else fst (Cut rest0 (CHR ''?'')));
                 url = new_URL\<lparr>Scheme := ToLower scheme, ForceQuery := force,
                         RawQuery := (if force then [] else fst (snd (Cut rest0 (CHR ''?''))))\<rparr>
             in
               if \<not> prefix ''/'' rest \<and> Scheme url \<noteq> [] then Inr (url\<lparr>Opaque := rest\<rparr>)
               else if \<not> prefix ''/'' rest \<and> ContainsByte (fst (Cut rest (CHR ''/''))) (CHR '':'')
                 then Inl FirstPathSegmentColon
               else if (Scheme url \<noteq> [] \<or> \<not> prefix ''///'' rest) \<and> prefix ''//'' rest then
                 (let authority0 = drop 2 rest;
                      authority = (case IndexByte authority0 (CHR ''/'') of
                                     None \<Rightarrow> authority0 | Some i \<Rightarrow> take i authority0);
                      rest' = (case IndexByte authority0 (CHR ''/'') of
                                 None \<Rightarrow> [] | Some i \<Rightarrow> drop i authority0)
                  in case parseAuthority authority of
                       Inl e \<Rightarrow> Inl e
                     | Inr (user, host) \<Rightarrow> setPath (url\<lparr>User := user, Host := host\<rparr>) rest')
               else if Scheme url \<noteq> [] \<and> prefix ''/'' rest then
                 setPath (url\<lparr>OmitHost := True\<rparr>) rest
               else setPath url rest))"

text \<open>\<^verbatim>\<open>url.Parse(rawURL)\<close>: the fragment is cut off first.\<close>

definition url_Parse :: "string \<Rightarrow> Error + URL" where
  "url_Parse rawURL =
     (let u = fst (Cut rawURL (CHR ''#''));
          frag = fst (snd (Cut rawURL (CHR ''#'')))
      in case parse u of
           Inl e \<Rightarrow> Inl (Error ''parse'' u e)
         | Inr url \<Rightarrow>
             if frag = [] then Inr url
             else (case setFragment url frag of
                     Inl e \<Rightarrow> Inl (Error ''parse'' rawURL e)
                   | Inr url' \<Rightarrow> Inr url'))"

text \<open>\<^verbatim>\<open>func (u *URL) Query() Values { v, _ := ParseQuery(u.RawQuery); return v }\<close>\<close>

definition URL_Query :: "URL \<Rightarrow> Values" where
  "URL_Query u = fst (ParseQuery (RawQuery u))"

text \<open>\<^verbatim>\<open>validEncoded\<close>, \<^verbatim>\<open>(*URL).EscapedPath\<close>, \<^verbatim>\<open>(*URL).EscapedFragment\<close> and
  \<^verbatim>\<open>(*Userinfo).String\<close>.\<close>

definition validEncoded :: "string \<Rightarrow> encoding \<Rightarrow> bool" where
  "validEncoded s mode =
     list_all (\<lambda>c. List.member ''!$&'()*+,;=:@[]%'' c \<or> \<not> shouldEscape c mode) s"

definition EscapedPath :: "URL \<Rightarrow> string" where
  "EscapedPath u =
     (if RawPath u \<noteq> [] \<and> validEncoded (RawPath u) encodePath
         \<and> unescape (RawPath u) encodePath = Inr (Path u) then RawPath u
      else if Path u = ''*'' then ''*''
      else escape (Path u) encodePath)"

definition EscapedFragment :: "URL \<Rightarrow> string" where
  "EscapedFragment u =
     (if RawFragment u \<noteq> [] \<and> validEncoded (RawFragment u) encodeFragment
         \<and> unescape (RawFragment u) encodeFragment = Inr (Fragment u) then RawFragment u
      else escape (Fragment u) encodeFragment)"

definition Userinfo_String :: "Userinfo \<Rightarrow> string" where
  "Userinfo_String ui =
     escape (username ui) encodeUserPassword
     @ (if passwordSet ui then '':'' @ escape (password ui) encodeUserPassword else [])"

text \<open>
  \<^verbatim>\<open>func (u *URL) String() string\<close> writes three parts into one buffer, in this order:
  scheme, opaque part or authority and path; then the query; then the fragment.  The
  three parts are the three definitions below.
\<close>

definition String_authority :: "URL \<Rightarrow> string" where
  "String_authority u =
     (if Scheme u \<noteq> [] \<or> Host u \<noteq> [] \<or> User u \<noteq> None then
        (if OmitHost u \<and> Host u = [] \<and> User u = None then []
         else
           (if Host u \<noteq> [] \<or> Path u \<noteq> [] \<or> User u \<noteq> None then ''//'' else [])
           @ (case User u of None \<Rightarrow> [] | Some ui \<Rightarrow> Userinfo_String ui @ ''@'')
           @ (if Host u \<noteq> [] then escape (Host u) encodeHost else []))
      else [])"

definition String_hier :: "URL \<Rightarrow> string" where
  "String_hier u =
     (let scheme = (if Scheme u \<noteq> [] then Scheme u @ '':'' else [])
      in if Opaque u \<noteq> [] then scheme @ Opaque u
         else
           (let buf = scheme @ String_authority u;
                path = EscapedPath u;
                buf = buf @ (if path \<noteq> [] \<and> hd path \<noteq> CHR ''/'' \<and> Host u \<noteq> [] then ''/'' else []);
                buf = buf @ (if buf = [] \<and> ContainsByte (fst (Cut path (CHR ''/''))) (CHR '':'')
                             then ''./'' else [])
            in buf @ path))"

definition String_query :: "URL \<Rightarrow> string" where
  "String_query u = (if ForceQuery u \<or> RawQuery u \<noteq> [] then ''?'' @ RawQuery u else [])"

definition String_fragment :: "URL \<Rightarrow> string" where
  "String_fragment u = (if Fragment u \<noteq> [] then ''#'' @ EscapedFragment u else [])"

definition URL_String :: "URL \<Rightarrow> string" where
  "URL_String u = String_hier u @ String_query u @ String_fragment u"

section \<open>The HTML document and its selection\<close>

text \<open>
  \<^verbatim>\<open>goquery.NewDocumentFromReader\<close> hands the body to the HTML parser of
  \<^verbatim>\<open>golang.org/x/net/html\<close> and wraps the tree it returns.  The parser is outside the
  repository and is a parameter of the model: a function from the body to an error or to
  the root of the tree.  The tree is the parser's \<^verbatim>\<open>html.Node\<close>: a type, the tag name or
  text in \<open>Data\<close>, the attributes in their order, the children in their order.
\<close>

datatype NodeType =
  ErrorNode | TextNode | DocumentNode | ElementNode | CommentNode | DoctypeNode | RawNode

datatype Attribute = Attribute (Namespace: string) (Key: string) (Val: string)

datatype Node = Node (Type: NodeType) (Data: string) (Attr: "Attribute list") (children: "Node list")

datatype html_error = ReadError string

type_synonym html_parser = "string \<Rightarrow> html_error + Node"

text \<open>\<^verbatim>\<open>(*Selection).Attr\<close> and \<^verbatim>\<open>(*Selection).AttrOr\<close> on the selection of one node that
  \<^verbatim>\<open>Each\<close> passes to its callback: the first attribute with that key, if any.\<close>

definition Selection_Attr :: "Node \<Rightarrow> string \<Rightarrow> string option" where
  "Selection_Attr s attrName = map_option Val (find (\<lambda>a. Key a = attrName) (Attr s))"

definition Selection_AttrOr :: "Node \<Rightarrow> string \<Rightarrow> string \<Rightarrow> string" where
  "Selection_AttrOr s attrName defaultValue =
     (case Selection_Attr s attrName of None \<Rightarrow> defaultValue | Some val \<Rightarrow> val)"

text \<open>
  A selector that is a comma-separated group of tag names, such as
  \<^verbatim>\<open>"a, form, input, select, textarea"\<close>, is given by the list of its tags: it matches the
  element nodes whose tag is one of them.  \<^verbatim>\<open>(*Selection).Find\<close> on the document collects
  the matches below the root in document order: \<open>matchAll\<close> visits a node before its
  children.
\<close>

definition matches :: "string list \<Rightarrow> Node \<Rightarrow> bool" where
  "matches tags n = (Type n = ElementNode \<and> List.member tags (Data n))"

fun matchAll :: "string list \<Rightarrow> Node \<Rightarrow> Node list" where
  "matchAll tags (Node t d a cs) =
     (if matches tags (Node t d a cs) then [Node t d a cs] else [])
     @ concat (map (matchAll tags) cs)"

definition Find :: "Node \<Rightarrow> string list \<Rightarrow> Node list" where
  "Find root tags =
     concat (map (matchAll tags) (filter (\<lambda>c. Type c = ElementNode) (children root)))"

section \<open>main.go: the parameter extractor\<close>

text \<open>What \<^verbatim>\<open>log.Printf\<close> writes to the standard logger.\<close>

datatype log_entry =
    LogErrorCreatingDocument html_error
  | LogErrorParsingURL string Error

text \<open>
  \<^verbatim>\<open>parseURLAndAddQueryParameters(rawurl, params)\<close>: a URL that does not parse is logged
  and leaves \<open>params\<close> as it is; otherwise every value of every key of the URL's query is
  added.
\<close>

definition addAll :: "Values \<Rightarrow> Values \<Rightarrow> Values" where
  "addAll params query =
     foldl (\<lambda>p (key, vals). foldl (\<lambda>p val. Values_Add p key val) p vals) params query"

definition parseURLAndAddQueryParameters ::
    "string \<Rightarrow> Values \<times> log_entry list \<Rightarrow> Values \<times> log_entry list" where
  "parseURLAndAddQueryParameters rawurl st =
     (case url_Parse rawurl of
        Inl err \<Rightarrow> (fst st, snd st @ [LogErrorParsingURL rawurl err])
      | Inr parsedURL \<Rightarrow> (addAll (fst st) (URL_Query parsedURL), snd st))"

text \<open>The callback of \<^verbatim>\<open>Each\<close> in \<^verbatim>\<open>extractQueryParamsFromHTML\<close>, for one selected
  element \<open>s\<close>.\<close>

definition addName :: "Node \<Rightarrow> Values \<times> log_entry list \<Rightarrow> Values \<times> log_entry list" where
  "addName s st =
     (case Selection_Attr s ''name'' of
        Some name \<Rightarrow> (Values_Add (fst st) name (Selection_AttrOr s ''value'' ''FUZZ''), snd st)
      | None \<Rightarrow> st)"

definition addURLAttr ::
    "string \<Rightarrow> Node \<Rightarrow> Values \<times> log_entry list \<Rightarrow> Values \<times> log_entry list" where
  "addURLAttr attrName s st =
     (case Selection_Attr s attrName of
        Some rawurl \<Rightarrow> parseURLAndAddQueryParameters rawurl st
      | None \<Rightarrow> st)"

definition eachElement :: "Node \<Rightarrow> Values \<times> log_entry list \<Rightarrow> Values \<times> log_entry list" where
  "eachElement s st = addURLAttr ''action'' s (addURLAttr ''href'' s (addName s st))"

text \<open>\<^verbatim>\<open>extractQueryParamsFromHTML(responseBody)\<close> of main.go; the second component is
  what it logs.\<close>

definition extractQueryParamsFromHTML :: "html_parser \<Rightarrow> string \<Rightarrow> Values \<times> log_entry list" where
  "extractQueryParamsFromHTML NewDocumentFromReader responseBody =
     (case NewDocumentFromReader responseBody of
        Inl err \<Rightarrow> ([], [LogErrorCreatingDocument err])
      | Inr doc \<Rightarrow>
          foldl (\<lambda>st s. eachElement s st) ([], [])
            (Find doc [''a'', ''form'', ''input'', ''select'', ''textarea'']))"

section \<open>Package net/http and the world around the program\<close>

text \<open>
  A request as \<^verbatim>\<open>http.NewRequest\<close> builds it and a client as the program configures it.
  \<open>Header\<close> lists the pairs given to \<^verbatim>\<open>Header.Add\<close> in the order of the calls; \<open>Proxy\<close> is
  the URL given to \<^verbatim>\<open>http.ProxyURL\<close> for the transport, if one was set; \<open>UseLastResponse\<close>
  says that \<^verbatim>\<open>CheckRedirect\<close> was set to the function returning
  \<^verbatim>\<open>http.ErrUseLastResponse\<close>.
\<close>

record Request =
  Method :: string
  RequestURL :: URL
  Header :: "(string \<times> string) list"

record Client =
  Timeout :: int
  Proxy :: "URL option"
  UseLastResponse :: bool

datatype http_error = InvalidMethod string | InvalidURL Error

datatype net_error = NetError string

datatype io_error = IOError string

text \<open>A response: reading its body to the end (\<^verbatim>\<open>io.Copy\<close>) gives the bytes or fails.\<close>

record Response =
  Body :: "io_error + string"

text \<open>\<^verbatim>\<open>validMethod\<close>: not empty, and every byte a token character of RFC 7230.\<close>

definition isTokenByte :: "char \<Rightarrow> bool" where
  "isTokenByte c = (isAlnum c \<or> List.member ''!#$%&'*+-.^_`|~'' c)"

definition validMethod :: "string \<Rightarrow> bool" where
  "validMethod method = (method \<noteq> [] \<and> list_all isTokenByte method)"

definition lastIndexInt :: "string \<Rightarrow> char \<Rightarrow> int" where
  "lastIndexInt s c = (case LastIndexByte s c of None \<Rightarrow> - 1 | Some i \<Rightarrow> int i)"

definition removeEmptyPort :: "string \<Rightarrow> string" where
  "removeEmptyPort host =
     (if lastIndexInt host (CHR '':'') > lastIndexInt host (CHR '']'') then
        (if suffix '':'' host then butlast host else host)
      else host)"

text \<open>\<^verbatim>\<open>http.NewRequest(method, url, nil)\<close>.\<close>

definition NewRequest :: "string \<Rightarrow> string \<Rightarrow> http_error + Request" where
  "NewRequest method url =
     (let method = (if method = [] then ''GET'' else method)
      in if \<not> validMethod method then Inl (InvalidMethod method)
         else
           (case url_Parse url of
              Inl err \<Rightarrow> Inl (InvalidURL err)
            | Inr u \<Rightarrow>
                Inr \<lparr>Method = method, RequestURL = u\<lparr>Host := removeEmptyPort (Host u)\<rparr>,
                     Header = []\<rparr>))"

definition Header_Add :: "Request \<Rightarrow> string \<Rightarrow> string \<Rightarrow> Request" where
  "Header_Add req key val = req\<lparr>Header := Header req @ [(key, val)]\<rparr>"

text \<open>
  What lies outside the program: the HTML parser, the network behind \<^verbatim>\<open>client.Do\<close>, and
  the file system behind \<^verbatim>\<open>file.WriteString\<close>, which maps the file's content and the
  string to write to the new content and an error, if any.
\<close>

record Env =
  parseHTML :: html_parser
  client_Do :: "Client \<Rightarrow> Request \<Rightarrow> net_error + Response"
  WriteString :: "string \<Rightarrow> string \<Rightarrow> string \<times> io_error option"

text \<open>The errors \<^verbatim>\<open>processURL\<close> and \<^verbatim>\<open>createRequestWithCustomHeaders\<close> return.\<close>

datatype error =
    ErrorParsingProxyURL Error
  | ErrorCreatingRequest http_error
  | InvalidHeaderFormat string
  | ErrorMakingRequest string net_error
  | ErrorParsingURL string Error
  | ReadFailed io_error
  | WriteFailed io_error
  | ProxyURLError Error
  | NewRequestError http_error
  | DoError net_error

datatype errorLog_entry =
    ErrorReadingResponseBody string io_error
  | ErrorWritingToFile io_error

datatype console_line =
    ExtractedParametersFromURL string
  | ParameterLine string string
  | PrintErrorRequestingURL string error
  | PrintErrorReadingResponseBody string io_error
  | PrintErrorWritingToFile io_error

text \<open>
  The state the program changes: the requests handed to \<^verbatim>\<open>client.Do\<close>, in order; the
  content of the output file; what was written to the error logger, to the standard
  logger and to standard output.
\<close>

record World =
  requests :: "(Client \<times> Request) list"
  outputFile :: string
  errorLog :: "errorLog_entry list"
  standardLog :: "log_entry list"
  standardOutput :: "console_line list"

section \<open>main.go: processing one URL\<close>

text \<open>The loop over the custom headers (main.go, lines 148 to 154; the other file's
  lines 191 to 199 are the same loop).\<close>

fun addCustomHeaders :: "string list \<Rightarrow> Request \<Rightarrow> error + Request" where
  "addCustomHeaders [] req = Inr req"
| "addCustomHeaders (header # customHeaders) req =
     (let parts = SplitN_2 header (CHR '':'')
      in if length parts \<noteq> 2 then Inl (InvalidHeaderFormat header)
         else addCustomHeaders customHeaders
                (Header_Add req (TrimSpace (parts ! 0)) (TrimSpace (parts ! 1))))"

text \<open>The verbose report: one line per key, its values joined by a comma and a space.\<close>

definition verboseLines :: "string \<Rightarrow> Values \<Rightarrow> console_line list" where
  "verboseLines urlStr queryParameters =
     ExtractedParametersFromURL urlStr
     # map (\<lambda>(key, vals). ParameterLine key (Join vals '', '')) queryParameters"

text \<open>Lines 172 to 194 of \<^verbatim>\<open>processURL\<close>: what is done with the extracted parameters.\<close>

definition writeModifiedURL ::
    "Env \<Rightarrow> string \<Rightarrow> bool \<Rightarrow> bool \<Rightarrow> Values \<Rightarrow> World \<Rightarrow> error option \<times> World" where
  "writeModifiedURL env urlStr quiet verbose queryParameters w =
     (if queryParameters \<noteq> [] then
        (case url_Parse urlStr of
           Inl err \<Rightarrow> (Some (ErrorParsingURL urlStr err), w)
         | Inr parsedURL \<Rightarrow>
             let modifiedURL = URL_String (parsedURL\<lparr>RawQuery := Values_Encode queryParameters\<rparr>);
                 written = WriteString env (outputFile w) (modifiedURL @ [CHR 0x0A]);
                 w = w\<lparr>outputFile := fst written\<rparr>
             in (case snd written of
                   Some err \<Rightarrow>
                     (Some (WriteFailed err),
                      if quiet then w else w\<lparr>errorLog := errorLog w @ [ErrorWritingToFile err]\<rparr>)
                 | None \<Rightarrow>
                     (None,
                      if verbose
                      then w\<lparr>standardOutput :=
                               standardOutput w @ verboseLines urlStr queryParameters\<rparr>
                      else w)))
      else (None, w))"

text \<open>Lines 121 to 168 of \<^verbatim>\<open>processURL\<close>: the client and the request are built, the
  request is sent and the body of the response is read.  The file and the error logger
  are part of the world \<open>w\<close>.\<close>

definition fetchBody ::
    "Env \<Rightarrow> string \<Rightarrow> string list \<Rightarrow> string \<Rightarrow> int \<Rightarrow> bool \<Rightarrow> bool \<Rightarrow> string \<Rightarrow> string
      \<Rightarrow> World \<Rightarrow> (error + string) \<times> World" where
  "fetchBody env urlStr customHeaders proxy timeout quiet followRedirects method baseURL w =
     (case (if proxy \<noteq> [] then map_sum id Some (url_Parse proxy) else Inr None) of
        Inl err \<Rightarrow> (Inl (ErrorParsingProxyURL err), w)
      | Inr proxyURL \<Rightarrow>
          let client = \<lparr>Timeout = timeout, Proxy = proxyURL, UseLastResponse = \<not> followRedirects\<rparr>;
              finalURL = (if baseURL \<noteq> [] then baseURL @ urlStr else urlStr)
          in (case NewRequest method finalURL of
                Inl err \<Rightarrow> (Inl (ErrorCreatingRequest err), w)
              | Inr req0 \<Rightarrow>
                  (case addCustomHeaders customHeaders req0 of
                     Inl err \<Rightarrow> (Inl err, w)
                   | Inr req \<Rightarrow>
                       let w = w\<lparr>requests := requests w @ [(client, req)]\<rparr>
                       in (case client_Do env client req of
                             Inl err \<Rightarrow> (Inl (ErrorMakingRequest urlStr err), w)
                           | Inr resp \<Rightarrow>
                               (case Body resp of
                                  Inl err \<Rightarrow>
                                    (Inl (ReadFailed err),
                                     if quiet then w
                                     else w\<lparr>errorLog :=
                                             errorLog w @ [ErrorReadingResponseBody urlStr err]\<rparr>)
                                | Inr buf \<Rightarrow> (Inr buf, w))))))"

text \<open>\<^verbatim>\<open>processURL\<close>: the body is fetched, the parameters are extracted from it (line
  170), and the modified URL is written.\<close>

definition processURL ::
    "Env \<Rightarrow> string \<Rightarrow> string list \<Rightarrow> string \<Rightarrow> int \<Rightarrow> bool \<Rightarrow> bool \<Rightarrow> bool \<Rightarrow> string \<Rightarrow> string
      \<Rightarrow> World \<Rightarrow> error option \<times> World" where
  "processURL env urlStr customHeaders proxy timeout quiet verbose followRedirects method baseURL w =
     (case fetchBody env urlStr customHeaders proxy timeout quiet followRedirects method baseURL w of
        (Inl err, w) \<Rightarrow> (Some err, w)
      | (Inr buf, w) \<Rightarrow>
          let extracted = extractQueryParamsFromHTML (parseHTML env) buf;
              w = w\<lparr>standardLog := standardLog w @ snd extracted\<rparr>
          in writeModifiedURL env urlStr quiet verbose (fst extracted) w)"

section \<open>The second source file (src/unnamed/part\_000)\<close>

text \<open>
  The repository holds a second file with its own \<^verbatim>\<open>main\<close>, its own
  \<^verbatim>\<open>extractQueryParamsFromHTML\<close> and the helpers \<^verbatim>\<open>extractParamsFromURL\<close>,
  \<^verbatim>\<open>createRequestWithCustomHeaders\<close> and \<^verbatim>\<open>mergeQueryParameters\<close>.  Where a name is
  that of a function of main.go, the definition below carries the suffix \<open>_part_000\<close>.

  This file ignores the error of \<^verbatim>\<open>url.Parse\<close> (\<^verbatim>\<open>parsedURL, _ := url.Parse(...)\<close>) and
  goes on to use the pointer, which is nil when parsing failed: the program panics with
  a nil pointer dereference.  A function that can panic returns \<open>Inl\<close> of the panic.
\<close>

datatype panic = NilPointerDereference

text \<open>\<^verbatim>\<open>mergeQueryParameters(params1, params2)\<close>:
  \<^verbatim>\<open>params1[key] = append(params1[key], values...)\<close> for every entry of \<open>params2\<close>.\<close>

definition mergeQueryParameters :: "Values \<Rightarrow> Values \<Rightarrow> Values" where
  "mergeQueryParameters params1 params2 =
     foldl (\<lambda>p (key, vals). AList.update key (Values_index p key @ vals) p) params1 params2"

text \<open>Lines 227 to 230, and 231 to 234 for \<open>src\<close>: the attribute's URL is parsed, the
  error dropped, and the query of the result merged.\<close>

definition mergeURLAttr :: "string \<Rightarrow> Values \<Rightarrow> panic + Values" where
  "mergeURLAttr rawurl queryParameters =
     (if rawurl \<noteq> [] then
        (case url_Parse rawurl of
           Inl err \<Rightarrow> Inl NilPointerDereference
         | Inr parsedURL \<Rightarrow> Inr (mergeQueryParameters queryParameters (URL_Query parsedURL)))
      else Inr queryParameters)"

text \<open>Lines 219 to 222 and 240 to 243: a value is trimmed, and replaced by \<open>FUZZ\<close> when
  nothing is left.\<close>

definition fuzzIfEmpty :: "string \<Rightarrow> string" where
  "fuzzIfEmpty val =
     (let val = TrimSpace val in if val = [] \<or> TrimSpace val = [] then ''FUZZ'' else val)"

text \<open>The callback of \<^verbatim>\<open>Each\<close> in this file's extractor.\<close>

definition eachElement_part_000 :: "Node \<Rightarrow> Values \<Rightarrow> panic + Values" where
  "eachElement_part_000 element queryParameters =
     (let name = Selection_AttrOr element ''name'' [];
          val = Selection_AttrOr element ''value'' [];
          href = Selection_AttrOr element ''href'' [];
          src = Selection_AttrOr element ''src'' [];
          queryParameters =
            (if name \<noteq> [] then
               AList.update name (Values_index queryParameters name @ [fuzzIfEmpty val])
                 queryParameters
             else queryParameters)
      in case mergeURLAttr href queryParameters of
           Inl p \<Rightarrow> Inl p
         | Inr queryParameters \<Rightarrow> mergeURLAttr src queryParameters)"

fun Each_part_000 :: "Node list \<Rightarrow> Values \<Rightarrow> panic + Values" where
  "Each_part_000 [] queryParameters = Inr queryParameters"
| "Each_part_000 (element # elements) queryParameters =
     (case eachElement_part_000 element queryParameters of
        Inl p \<Rightarrow> Inl p
      | Inr queryParameters \<Rightarrow> Each_part_000 elements queryParameters)"

text \<open>\<^verbatim>\<open>extractQueryParamsFromHTML\<close> of this file: the elements \<open>input\<close>, \<open>select\<close>,
  \<open>textarea\<close> and \<open>a\<close> are visited, then every value of the map is normalised.\<close>

definition extractQueryParamsFromHTML_part_000 :: "html_parser \<Rightarrow> string \<Rightarrow> panic + Values" where
  "extractQueryParamsFromHTML_part_000 NewDocumentFromReader responseBody =
     (case NewDocumentFromReader responseBody of
        Inl err \<Rightarrow> Inr []
      | Inr doc \<Rightarrow>
          (case Each_part_000 (Find doc [''input'', ''select'', ''textarea'', ''a'']) [] of
             Inl p \<Rightarrow> Inl p
           | Inr queryParameters \<Rightarrow>
               Inr (map (\<lambda>(key, vals). (key, map fuzzIfEmpty vals)) queryParameters)))"

text \<open>\<^verbatim>\<open>createRequestWithCustomHeaders\<close>: the response of \<^verbatim>\<open>client.Do\<close> or the first
  error on the way to it.\<close>

definition createRequestWithCustomHeaders ::
    "Env \<Rightarrow> string \<Rightarrow> string list \<Rightarrow> string \<Rightarrow> int \<Rightarrow> bool \<Rightarrow> string \<Rightarrow> string \<Rightarrow> World
      \<Rightarrow> (error + Response) \<times> World" where
  "createRequestWithCustomHeaders env u customHeaders proxy timeout followRedirects method baseURL w =
     (case (if proxy \<noteq> [] then map_sum id Some (url_Parse proxy) else Inr None) of
        Inl err \<Rightarrow> (Inl (ProxyURLError err), w)
      | Inr proxyURL \<Rightarrow>
          let finalURL = (if baseURL \<noteq> [] then baseURL @ u else u)
          in (case NewRequest method finalURL of
                Inl err \<Rightarrow> (Inl (NewRequestError err), w)
              | Inr req0 \<Rightarrow>
                  let client = \<lparr>Timeout = timeout, Proxy = proxyURL,
                                UseLastResponse = \<not> followRedirects\<rparr>
                  in (case addCustomHeaders customHeaders req0 of
                        Inl err \<Rightarrow> (Inl err, w)
                      | Inr req \<Rightarrow>
                          (map_sum DoError id (client_Do env client req),
                           w\<lparr>requests := requests w @ [(client, req)]\<rparr>))))"

text \<open>Lines 133 to 152 of \<^verbatim>\<open>extractParamsFromURL\<close>.  A failed write is reported and the
  function goes on to the verbose report.\<close>

definition writeModifiedURL_part_000 ::
    "Env \<Rightarrow> string \<Rightarrow> bool \<Rightarrow> bool \<Rightarrow> Values \<Rightarrow> World \<Rightarrow> panic + World" where
  "writeModifiedURL_part_000 env u quiet verbose queryParameters w =
     (if queryParameters \<noteq> [] then
        (case url_Parse u of
           Inl err \<Rightarrow> Inl NilPointerDereference
         | Inr parsedURL \<Rightarrow>
             let modifiedURL = URL_String (parsedURL\<lparr>RawQuery := Values_Encode queryParameters\<rparr>);
                 written = WriteString env (outputFile w) (modifiedURL @ [CHR 0x0A]);
                 w = w\<lparr>outputFile := fst written\<rparr>;
                 w = (case snd written of
                        Some err \<Rightarrow>
                          if quiet then w
                          else w\<lparr>standardOutput :=
                                  standardOutput w @ [PrintErrorWritingToFile err]\<rparr>
                      | None \<Rightarrow> w)
             in Inr (if verbose
                     then w\<lparr>standardOutput := standardOutput w @ verboseLines u queryParameters\<rparr>
                     else w))
      else Inr w)"

text \<open>\<^verbatim>\<open>extractParamsFromURL\<close>.  It returns nothing; the result is the world it leaves,
  or the panic.\<close>

definition extractParamsFromURL ::
    "Env \<Rightarrow> string \<Rightarrow> string list \<Rightarrow> string \<Rightarrow> int \<Rightarrow> bool \<Rightarrow> bool \<Rightarrow> bool \<Rightarrow> string \<Rightarrow> string
      \<Rightarrow> World \<Rightarrow> panic + World" where
  "extractParamsFromURL env u customHeaders proxy timeout quiet verbose followRedirects method baseURL w =
     (case createRequestWithCustomHeaders env u customHeaders proxy timeout followRedirects
             method baseURL w of
        (Inl err, w) \<Rightarrow>
          Inr (if quiet then w
               else w\<lparr>standardOutput := standardOutput w @ [PrintErrorRequestingURL u err]\<rparr>)
      | (Inr resp, w) \<Rightarrow>
          (case Body resp of
             Inl err \<Rightarrow>
               Inr (if quiet then w
                    else w\<lparr>standardOutput :=
                            standardOutput w @ [PrintErrorReadingResponseBody u err]\<rparr>)
           | Inr buf \<Rightarrow>
               (case extractQueryParamsFromHTML_part_000 (parseHTML env) buf of
                  Inl p \<Rightarrow> Inl p
                | Inr queryParameters \<Rightarrow>
                    writeModifiedURL_part_000 env u quiet verbose queryParameters w)))"

section \<open>The round trip of the query encoding\<close>

text \<open>
  C7.  The map \<open>{"q": ["FUZZ", "1"], "id": ["5"]}\<close> is encoded as \<open>id=5&q=FUZZ&q=1\<close>, and
  parsing that query string again succeeds and gives a map with the same keys and, for
  each key, the same values in the same order.
\<close>

theorem C7_encode_parse_round_trip:
  "Values_Encode [(''q'', [''FUZZ'', ''1'']), (''id'', [''5''])] = ''id=5&q=FUZZ&q=1''
   \<and> snd (ParseQuery (Values_Encode [(''q'', [''FUZZ'', ''1'']), (''id'', [''5''])])) = None
   \<and> map_of (fst (ParseQuery (Values_Encode [(''q'', [''FUZZ'', ''1'']), (''id'', [''5''])])))
     = map_of [(''q'', [''FUZZ'', ''1'']), (''id'', [''5''])]"
proof -
  have enc: "Values_Encode [(''q'', [''FUZZ'', ''1'']), (''id'', [''5''])] = ''id=5&q=FUZZ&q=1''"
    by code_simp
  have parse: "ParseQuery ''id=5&q=FUZZ&q=1'' = ([(''id'', [''5'']), (''q'', [''FUZZ'', ''1''])], None)"
    by code_simp
  have same: "map_of [(''id'', [''5'']), (''q'', [''FUZZ'', ''1''])]
      = map_of [(''q'', [''FUZZ'', ''1'']), (''id'', [''5''])]"
    by (auto simp: fun_eq_iff)
  show ?thesis
    by (simp only: enc parse fst_conv snd_conv same)
qed


section \<open>An example environment\<close>

text \<open>
  For the examples below: an environment whose server answers every request with
  \<open>body\<close>, whose HTML parser answers \<open>parsed\<close>, and whose file system appends what is
  written; the world before anything has happened; and the tree the HTML parser builds
  around the elements of a body, which it puts into \<open>html\<close>, \<open>head\<close> and \<open>body\<close>
  elements of its own.
\<close>

definition exampleEnv :: "string \<Rightarrow> html_error + Node \<Rightarrow> Env" where
  "exampleEnv body parsed =
     \<lparr>parseHTML = (\<lambda>s. parsed),
      client_Do = (\<lambda>client req. Inr \<lparr>Body = Inr body\<rparr>),
      WriteString = (\<lambda>content s. (content @ s, None))\<rparr>"

definition exampleDocument :: "Node list \<Rightarrow> Node" where
  "exampleDocument content =
     Node DocumentNode [] []
       [Node ElementNode ''html'' []
          [Node ElementNode ''head'' [] [], Node ElementNode ''body'' [] content]]"

definition emptyWorld :: World where
  "emptyWorld = \<lparr>requests = [], outputFile = [], errorLog = [], standardLog = [],
     standardOutput = []\<rparr>"

section \<open>Custom headers\<close>

lemma Cut_found: "snd (snd (Cut s c)) = ContainsByte s c"
  by (induction s) (auto simp: ContainsByte_def split: prod.splits)

lemma Cut_before: "fst (Cut s c) = takeWhile (\<lambda>x. x \<noteq> c) s"
  by (induction s) (auto split: prod.splits)

lemma Cut_after: "fst (snd (Cut s c)) = drop 1 (dropWhile (\<lambda>x. x \<noteq> c) s)"
  by (induction s) (auto split: prod.splits)

lemma length_SplitN_2: "length (SplitN_2 s c) = 2 \<longleftrightarrow> ContainsByte s c"
  using Cut_found [of s c] by (auto simp: SplitN_2_def split: prod.splits)

lemma SplitN_2_parts:
  "ContainsByte s c \<Longrightarrow> SplitN_2 s c = [fst (Cut s c), fst (snd (Cut s c))]"
  using Cut_found [of s c] by (auto simp: SplitN_2_def split: prod.splits)

lemma addCustomHeaders_fail:
  "find (\<lambda>h. \<not> ContainsByte h (CHR '':'')) hs = Some h \<Longrightarrow>
   addCustomHeaders hs req = Inl (InvalidHeaderFormat h)"
  by (induction hs arbitrary: req) (auto simp: length_SplitN_2 Let_def split: if_splits)

lemma addCustomHeaders_ok:
  "list_all (\<lambda>h. ContainsByte h (CHR '':'')) hs \<Longrightarrow>
   addCustomHeaders hs req =
     Inr (req\<lparr>Header := Header req
            @ map (\<lambda>h. (TrimSpace (fst (Cut h (CHR '':''))), TrimSpace (fst (snd (Cut h (CHR '':'')))))) hs\<rparr>)"
  by (induction hs arbitrary: req) (auto simp: length_SplitN_2 SplitN_2_parts Let_def Header_Add_def)

lemma fetchBody_header_fail:
  assumes "find (\<lambda>h. \<not> ContainsByte h (CHR '':'')) customHeaders = Some header"
  shows "\<exists>err. fetchBody env urlStr customHeaders proxy timeout quiet followRedirects reqMethod baseURL w
           = (Inl err, w)"
  using addCustomHeaders_fail [OF assms]
  by (auto simp: fetchBody_def Let_def split: sum.splits)

lemma fetchBody_header_error:
  assumes "find (\<lambda>h. \<not> ContainsByte h (CHR '':'')) customHeaders = Some header"
    and "proxy = [] \<or> url_Parse proxy = Inr p"
    and "NewRequest reqMethod (if baseURL \<noteq> [] then baseURL @ urlStr else urlStr) = Inr req0"
  shows "fetchBody env urlStr customHeaders proxy timeout quiet followRedirects reqMethod baseURL w
           = (Inl (InvalidHeaderFormat header), w)"
  using addCustomHeaders_fail [OF assms(1)] assms(2,3)
  by (auto simp: fetchBody_def Let_def split: sum.splits)

lemma create_header_fail:
  assumes "find (\<lambda>h. \<not> ContainsByte h (CHR '':'')) customHeaders = Some header"
  shows "\<exists>err. createRequestWithCustomHeaders env u customHeaders proxy timeout followRedirects reqMethod baseURL w
           = (Inl err, w)"
  using addCustomHeaders_fail [OF assms]
  by (auto simp: createRequestWithCustomHeaders_def Let_def split: sum.splits)

lemma create_header_error:
  assumes "find (\<lambda>h. \<not> ContainsByte h (CHR '':'')) customHeaders = Some header"
    and "proxy = [] \<or> url_Parse proxy = Inr p"
    and "NewRequest reqMethod (if baseURL \<noteq> [] then baseURL @ u else u) = Inr req0"
  shows "createRequestWithCustomHeaders env u customHeaders proxy timeout followRedirects reqMethod baseURL w
           = (Inl (InvalidHeaderFormat header), w)"
  using addCustomHeaders_fail [OF assms(1)] assms(2,3)
  by (auto simp: createRequestWithCustomHeaders_def Let_def split: sum.splits)

lemma fetchBody_outputFile:
  "outputFile (snd (fetchBody env urlStr customHeaders proxy timeout quiet followRedirects reqMethod baseURL w))
     = outputFile w"
  by (auto simp: fetchBody_def Let_def split: sum.splits)

lemma fetchBody_standardOutput:
  "standardOutput (snd (fetchBody env urlStr customHeaders proxy timeout quiet followRedirects reqMethod baseURL w))
     = standardOutput w"
  by (auto simp: fetchBody_def Let_def split: sum.splits)

lemma create_outputFile:
  "outputFile (snd (createRequestWithCustomHeaders env u customHeaders proxy timeout followRedirects reqMethod baseURL w))
     = outputFile w"
  by (auto simp: createRequestWithCustomHeaders_def Let_def split: sum.splits)

lemma create_standardOutput:
  "standardOutput (snd (createRequestWithCustomHeaders env u customHeaders proxy timeout followRedirects reqMethod baseURL w))
     = standardOutput w"
  by (auto simp: createRequestWithCustomHeaders_def Let_def split: sum.splits)

text \<open>
  C4, as amended.  Let \<open>header\<close> be the first custom header without a colon.  Then
  processing the URL fails and leaves the world as it was: nothing is handed to
  \<^verbatim>\<open>client.Do\<close>.  The proxy URL and the request are checked before the headers.  So
  the error is the invalid-header-format error for \<open>header\<close> when the proxy is empty or
  parses and \<^verbatim>\<open>http.NewRequest\<close> succeeds; it is the proxy error when the proxy is not
  empty and does not parse; and it is the error of \<^verbatim>\<open>http.NewRequest\<close> when the proxy
  is empty or parses and the request cannot be created.  Both files behave so; the
  second file's \<^verbatim>\<open>createRequestWithCustomHeaders\<close> returns the error to
  \<^verbatim>\<open>extractParamsFromURL\<close>.  When every header has a colon, each is added with the
  trimmed text before its first colon as key and the trimmed text after it as value.
\<close>

theorem C4_header_without_colon:
  assumes "find (\<lambda>h. \<not> ContainsByte h (CHR '':'')) customHeaders = Some header"
  shows "fst (processURL env urlStr customHeaders proxy timeout quiet verbose followRedirects
                reqMethod baseURL w) \<noteq> None
    \<and> snd (processURL env urlStr customHeaders proxy timeout quiet verbose followRedirects
                reqMethod baseURL w) = w
    \<and> ((proxy = [] \<or> url_Parse proxy = Inr p)
         \<and> NewRequest reqMethod (if baseURL \<noteq> [] then baseURL @ urlStr else urlStr) = Inr req0
        \<longrightarrow> fst (processURL env urlStr customHeaders proxy timeout quiet verbose followRedirects
                    reqMethod baseURL w) = Some (InvalidHeaderFormat header))
    \<and> isl (fst (createRequestWithCustomHeaders env urlStr customHeaders proxy timeout
                   followRedirects reqMethod baseURL w))
    \<and> snd (createRequestWithCustomHeaders env urlStr customHeaders proxy timeout
              followRedirects reqMethod baseURL w) = w
    \<and> ((proxy = [] \<or> url_Parse proxy = Inr p)
         \<and> NewRequest reqMethod (if baseURL \<noteq> [] then baseURL @ urlStr else urlStr) = Inr req0
        \<longrightarrow> fst (createRequestWithCustomHeaders env urlStr customHeaders proxy timeout
                    followRedirects reqMethod baseURL w) = Inl (InvalidHeaderFormat header))
    \<and> (proxy \<noteq> [] \<and> url_Parse proxy = Inl proxyErr
        \<longrightarrow> fst (processURL env urlStr customHeaders proxy timeout quiet verbose followRedirects
                    reqMethod baseURL w) = Some (ErrorParsingProxyURL proxyErr)
          \<and> fst (createRequestWithCustomHeaders env urlStr customHeaders proxy timeout
                    followRedirects reqMethod baseURL w) = Inl (ProxyURLError proxyErr))
    \<and> ((proxy = [] \<or> url_Parse proxy = Inr p)
         \<and> NewRequest reqMethod (if baseURL \<noteq> [] then baseURL @ urlStr else urlStr) = Inl reqErr
        \<longrightarrow> fst (processURL env urlStr customHeaders proxy timeout quiet verbose followRedirects
                    reqMethod baseURL w) = Some (ErrorCreatingRequest reqErr)
          \<and> fst (createRequestWithCustomHeaders env urlStr customHeaders proxy timeout
                    followRedirects reqMethod baseURL w) = Inl (NewRequestError reqErr))
    \<and> (list_all (\<lambda>h. ContainsByte h (CHR '':'')) hs
        \<longrightarrow> addCustomHeaders hs req =
              Inr (req\<lparr>Header := Header req
                     @ map (\<lambda>h. (TrimSpace (takeWhile (\<lambda>c. c \<noteq> CHR '':'') h),
                                  TrimSpace (drop 1 (dropWhile (\<lambda>c. c \<noteq> CHR '':'') h)))) hs\<rparr>))"
proof -
  obtain err where f: "fetchBody env urlStr customHeaders proxy timeout quiet followRedirects
      reqMethod baseURL w = (Inl err, w)"
    using fetchBody_header_fail [OF assms] by blast
  obtain err' where c: "createRequestWithCustomHeaders env urlStr customHeaders proxy timeout
      followRedirects reqMethod baseURL w = (Inl err', w)"
    using create_header_fail [OF assms] by blast
  have 1: "fst (processURL env urlStr customHeaders proxy timeout quiet verbose followRedirects
                reqMethod baseURL w) \<noteq> None"
    by (simp add: processURL_def f)
  have 2: "snd (processURL env urlStr customHeaders proxy timeout quiet verbose followRedirects
                reqMethod baseURL w) = w"
    by (simp add: processURL_def f)
  have 3: "fst (processURL env urlStr customHeaders proxy timeout quiet verbose followRedirects
                    reqMethod baseURL w) = Some (InvalidHeaderFormat header)"
    if "proxy = [] \<or> url_Parse proxy = Inr p"
      and "NewRequest reqMethod (if baseURL \<noteq> [] then baseURL @ urlStr else urlStr) = Inr req0"
    using fetchBody_header_error [OF assms that] by (simp add: processURL_def)
  have 4: "isl (fst (createRequestWithCustomHeaders env urlStr customHeaders proxy timeout
                   followRedirects reqMethod baseURL w))"
    by (simp add: c)
  have 5: "snd (createRequestWithCustomHeaders env urlStr customHeaders proxy timeout
              followRedirects reqMethod baseURL w) = w"
    by (simp add: c)
  have 6: "fst (createRequestWithCustomHeaders env urlStr customHeaders proxy timeout
                    followRedirects reqMethod baseURL w) = Inl (InvalidHeaderFormat header)"
    if "proxy = [] \<or> url_Parse proxy = Inr p"
      and "NewRequest reqMethod (if baseURL \<noteq> [] then baseURL @ urlStr else urlStr) = Inr req0"
    using create_header_error [OF assms that] by simp
  have 7: "addCustomHeaders hs req =
              Inr (req\<lparr>Header := Header req
                     @ map (\<lambda>h. (TrimSpace (takeWhile (\<lambda>c. c \<noteq> CHR '':'') h),
                                  TrimSpace (drop 1 (dropWhile (\<lambda>c. c \<noteq> CHR '':'') h)))) hs\<rparr>)"
    if "list_all (\<lambda>h. ContainsByte h (CHR '':'')) hs"
    using addCustomHeaders_ok [OF that] by (simp add: Cut_before Cut_after)
  have 8: "fst (processURL env urlStr customHeaders proxy timeout quiet verbose followRedirects
                    reqMethod baseURL w) = Some (ErrorParsingProxyURL proxyErr)
          \<and> fst (createRequestWithCustomHeaders env urlStr customHeaders proxy timeout
                    followRedirects reqMethod baseURL w) = Inl (ProxyURLError proxyErr)"
    if "proxy \<noteq> []" and "url_Parse proxy = Inl proxyErr"
    using that
    by (simp add: processURL_def fetchBody_def createRequestWithCustomHeaders_def)
  have 9: "fst (processURL env urlStr customHeaders proxy timeout quiet verbose followRedirects
                    reqMethod baseURL w) = Some (ErrorCreatingRequest reqErr)
          \<and> fst (createRequestWithCustomHeaders env urlStr customHeaders proxy timeout
                    followRedirects reqMethod baseURL w) = Inl (NewRequestError reqErr)"
    if "proxy = [] \<or> url_Parse proxy = Inr p"
      and "NewRequest reqMethod (if baseURL \<noteq> [] then baseURL @ urlStr else urlStr) = Inl reqErr"
    using that
    by (auto simp: processURL_def fetchBody_def createRequestWithCustomHeaders_def Let_def)
  from 1 2 3 4 5 6 7 8 9 show ?thesis by blast
qed


theorem C4_header_without_colon_witness:
  "find (\<lambda>h. \<not> ContainsByte h (CHR '':'')) [''Accept: text/html'', ''X-Foo''] = Some ''X-Foo''
   \<and> processURL (exampleEnv [] (Inr (exampleDocument []))) ''http://h/page''
        [''Accept: text/html'', ''X-Foo''] [] 30 False False True ''GET'' [] emptyWorld
      = (Some (InvalidHeaderFormat ''X-Foo''), emptyWorld)
   \<and> createRequestWithCustomHeaders (exampleEnv [] (Inr (exampleDocument []))) ''http://h/page''
        [''Accept: text/html'', ''X-Foo''] [] 30 True ''GET'' [] emptyWorld
      = (Inl (InvalidHeaderFormat ''X-Foo''), emptyWorld)
   \<and> addCustomHeaders [''Accept: text/html''] \<lparr>Method = ''GET'', RequestURL = new_URL, Header = []\<rparr>
      = Inr \<lparr>Method = ''GET'', RequestURL = new_URL, Header = [(''Accept'', ''text/html'')]\<rparr>
   \<and> processURL (exampleEnv [] (Inr (exampleDocument []))) ''http://h/page''
        [''Accept: text/html'', ''X-Foo''] '':'' 30 False False True ''GET'' [] emptyWorld
      = (Some (ErrorParsingProxyURL (Error ''parse'' '':'' MissingProtocolScheme)), emptyWorld)
   \<and> createRequestWithCustomHeaders (exampleEnv [] (Inr (exampleDocument []))) ''http://h/page''
        [''Accept: text/html'', ''X-Foo''] '':'' 30 True ''GET'' [] emptyWorld
      = (Inl (ProxyURLError (Error ''parse'' '':'' MissingProtocolScheme)), emptyWorld)
   \<and> processURL (exampleEnv [] (Inr (exampleDocument []))) ''http://h/page''
        [''Accept: text/html'', ''X-Foo''] [] 30 False False True ''G ET'' [] emptyWorld
      = (Some (ErrorCreatingRequest (InvalidMethod ''G ET'')), emptyWorld)
   \<and> createRequestWithCustomHeaders (exampleEnv [] (Inr (exampleDocument []))) ''http://h/page''
        [''Accept: text/html'', ''X-Foo''] [] 30 True ''G ET'' [] emptyWorld
      = (Inl (NewRequestError (InvalidMethod ''G ET'')), emptyWorld)"
proof -
  let ?env = "exampleEnv [] (Inr (exampleDocument []))"
  have h: "find (\<lambda>h. \<not> ContainsByte h (CHR '':'')) [''Accept: text/html'', ''X-Foo''] = Some ''X-Foo''"
    by code_simp
  have n: "NewRequest ''GET'' (if [] \<noteq> [] then [] @ ''http://h/page'' else ''http://h/page'')
      = Inr \<lparr>Method = ''GET'',
             RequestURL = new_URL\<lparr>Scheme := ''http'', Host := ''h'', Path := ''/page''\<rparr>,
             Header = []\<rparr>"
    by code_simp
  have a: "list_all (\<lambda>h. ContainsByte h (CHR '':'')) [''Accept: text/html'']"
    by code_simp
  have t: "TrimSpace (takeWhile (\<lambda>c. c \<noteq> CHR '':'') ''Accept: text/html'') = ''Accept''"
    "TrimSpace (drop 1 (dropWhile (\<lambda>c. c \<noteq> CHR '':'') ''Accept: text/html'')) = ''text/html''"
    by code_simp+
  have p: "url_Parse '':'' = Inl (Error ''parse'' '':'' MissingProtocolScheme)"
    by code_simp
  have m: "NewRequest ''G ET'' (if [] \<noteq> [] then [] @ ''http://h/page'' else ''http://h/page'')
      = Inl (InvalidMethod ''G ET'')"
    by code_simp
  have ok: "processURL ?env ''http://h/page'' [''Accept: text/html'', ''X-Foo''] [] 30 False False
        True ''GET'' [] emptyWorld = (Some (InvalidHeaderFormat ''X-Foo''), emptyWorld)
      \<and> createRequestWithCustomHeaders ?env ''http://h/page'' [''Accept: text/html'', ''X-Foo'']
        [] 30 True ''GET'' [] emptyWorld = (Inl (InvalidHeaderFormat ''X-Foo''), emptyWorld)
      \<and> addCustomHeaders [''Accept: text/html''] \<lparr>Method = ''GET'', RequestURL = new_URL, Header = []\<rparr>
        = Inr \<lparr>Method = ''GET'', RequestURL = new_URL, Header = [(''Accept'', ''text/html'')]\<rparr>"
    using C4_header_without_colon [OF h,
        where env = ?env and urlStr = "''http://h/page''"
          and proxy = "[]" and timeout = 30 and quiet = False and verbose = False
          and followRedirects = True and reqMethod = "''GET''" and baseURL = "[]"
          and w = emptyWorld and hs = "[''Accept: text/html'']"
          and req = "\<lparr>Method = ''GET'', RequestURL = new_URL, Header = []\<rparr>"] n a t
    by (simp add: prod_eq_iff)
  have badProxy: "processURL ?env ''http://h/page'' [''Accept: text/html'', ''X-Foo''] '':'' 30
        False False True ''GET'' [] emptyWorld
        = (Some (ErrorParsingProxyURL (Error ''parse'' '':'' MissingProtocolScheme)), emptyWorld)
      \<and> createRequestWithCustomHeaders ?env ''http://h/page'' [''Accept: text/html'', ''X-Foo'']
        '':'' 30 True ''GET'' [] emptyWorld
        = (Inl (ProxyURLError (Error ''parse'' '':'' MissingProtocolScheme)), emptyWorld)"
    using C4_header_without_colon [OF h,
        where env = ?env and urlStr = "''http://h/page''"
          and proxy = "'':''" and timeout = 30 and quiet = False and verbose = False
          and followRedirects = True and reqMethod = "''GET''" and baseURL = "[]"
          and w = emptyWorld
          and proxyErr = "Error ''parse'' '':'' MissingProtocolScheme"] p
    by (simp add: prod_eq_iff)
  have badMethod: "processURL ?env ''http://h/page'' [''Accept: text/html'', ''X-Foo''] [] 30
        False False True ''G ET'' [] emptyWorld
        = (Some (ErrorCreatingRequest (InvalidMethod ''G ET'')), emptyWorld)
      \<and> createRequestWithCustomHeaders ?env ''http://h/page'' [''Accept: text/html'', ''X-Foo'']
        [] 30 True ''G ET'' [] emptyWorld
        = (Inl (NewRequestError (InvalidMethod ''G ET'')), emptyWorld)"
    using C4_header_without_colon [OF h,
        where env = ?env and urlStr = "''http://h/page''"
          and proxy = "[]" and timeout = 30 and quiet = False and verbose = False
          and followRedirects = True and reqMethod = "''G ET''" and baseURL = "[]"
          and w = emptyWorld and reqErr = "InvalidMethod ''G ET''"] m
    by (simp add: prod_eq_iff)
  from h ok badProxy badMethod show ?thesis by simp
qed

text \<open>
  C4 as stated fails when the proxy URL does not parse or the request cannot be
  created: with the header \<open>X-Foo\<close> and the proxy \<open>:\<close> the error is the proxy error,
  and with the header \<open>X-Foo\<close> and the method \<open>G ET\<close> it is the error of
  \<^verbatim>\<open>http.NewRequest\<close>, not the invalid-header-format error.
\<close>

theorem C4_malformed_proxy_counterexample:
  "\<not> ContainsByte ''X-Foo'' (CHR '':'')
   \<and> processURL (exampleEnv [] (Inr (exampleDocument []))) ''http://h/page'' [''X-Foo''] '':''
        30 False False True ''GET'' [] emptyWorld
      = (Some (ErrorParsingProxyURL (Error ''parse'' '':'' MissingProtocolScheme)), emptyWorld)
   \<and> createRequestWithCustomHeaders (exampleEnv [] (Inr (exampleDocument []))) ''http://h/page''
        [''X-Foo''] '':'' 30 True ''GET'' [] emptyWorld
      = (Inl (ProxyURLError (Error ''parse'' '':'' MissingProtocolScheme)), emptyWorld)
   \<and> processURL (exampleEnv [] (Inr (exampleDocument []))) ''http://h/page'' [''X-Foo''] []
        30 False False True ''G ET'' [] emptyWorld
      = (Some (ErrorCreatingRequest (InvalidMethod ''G ET'')), emptyWorld)
   \<and> createRequestWithCustomHeaders (exampleEnv [] (Inr (exampleDocument []))) ''http://h/page''
        [''X-Foo''] [] 30 True ''G ET'' [] emptyWorld
      = (Inl (NewRequestError (InvalidMethod ''G ET'')), emptyWorld)"
  by code_simp



section \<open>No parameters, no output line\<close>

text \<open>
  C5.  With an empty parameter map the step that rewrites and writes the URL does
  nothing at all, in both files: the URL is not even parsed and the world stays as it
  is.  So when the body was fetched and no parameter was extracted from it,
  \<^verbatim>\<open>processURL\<close> returns no error and \<^verbatim>\<open>extractParamsFromURL\<close> returns, and the output
  file and standard output are what they were before the URL was processed.
\<close>

theorem C5_no_parameters_no_output:
  "writeModifiedURL env urlStr quiet verbose [] w = (None, w)
   \<and> writeModifiedURL_part_000 env urlStr quiet verbose [] w = Inr w
   \<and> (fetchBody env urlStr customHeaders proxy timeout quiet followRedirects reqMethod baseURL w
          = (Inr buf, w1)
        \<and> fst (extractQueryParamsFromHTML (parseHTML env) buf) = []
       \<longrightarrow> processURL env urlStr customHeaders proxy timeout quiet verbose followRedirects
             reqMethod baseURL w
           = (None, w1\<lparr>standardLog := standardLog w1
                         @ snd (extractQueryParamsFromHTML (parseHTML env) buf)\<rparr>)
         \<and> outputFile w1 = outputFile w
         \<and> standardOutput w1 = standardOutput w)
   \<and> (createRequestWithCustomHeaders env urlStr customHeaders proxy timeout followRedirects
          reqMethod baseURL w = (Inr resp, w2)
        \<and> Body resp = Inr buf
        \<and> extractQueryParamsFromHTML_part_000 (parseHTML env) buf = Inr []
       \<longrightarrow> extractParamsFromURL env urlStr customHeaders proxy timeout quiet verbose
             followRedirects reqMethod baseURL w = Inr w2
         \<and> outputFile w2 = outputFile w
         \<and> standardOutput w2 = standardOutput w)"
proof -
  have 1: "writeModifiedURL env urlStr quiet verbose [] w = (None, w)" for w
    by (simp add: writeModifiedURL_def)
  have 2: "writeModifiedURL_part_000 env urlStr quiet verbose [] w = Inr w" for w
    by (simp add: writeModifiedURL_part_000_def)
  have 3: "processURL env urlStr customHeaders proxy timeout quiet verbose followRedirects
             reqMethod baseURL w
           = (None, w1\<lparr>standardLog := standardLog w1
                         @ snd (extractQueryParamsFromHTML (parseHTML env) buf)\<rparr>)
         \<and> outputFile w1 = outputFile w
         \<and> standardOutput w1 = standardOutput w"
    if f: "fetchBody env urlStr customHeaders proxy timeout quiet followRedirects reqMethod baseURL w
          = (Inr buf, w1)"
      and e: "fst (extractQueryParamsFromHTML (parseHTML env) buf) = []"
    using fetchBody_outputFile [of env urlStr customHeaders proxy timeout quiet followRedirects
        reqMethod baseURL w]
      fetchBody_standardOutput [of env urlStr customHeaders proxy timeout quiet followRedirects
        reqMethod baseURL w]
    by (simp add: processURL_def f e 1 Let_def)
  have 4: "extractParamsFromURL env urlStr customHeaders proxy timeout quiet verbose
             followRedirects reqMethod baseURL w = Inr w2
         \<and> outputFile w2 = outputFile w
         \<and> standardOutput w2 = standardOutput w"
    if c: "createRequestWithCustomHeaders env urlStr customHeaders proxy timeout followRedirects
          reqMethod baseURL w = (Inr resp, w2)"
      and b: "Body resp = Inr buf"
      and e: "extractQueryParamsFromHTML_part_000 (parseHTML env) buf = Inr []"
    using create_outputFile [of env urlStr customHeaders proxy timeout followRedirects
        reqMethod baseURL w]
      create_standardOutput [of env urlStr customHeaders proxy timeout followRedirects
        reqMethod baseURL w]
    by (simp add: extractParamsFromURL_def c b e 2)
  from 1 2 3 4 show ?thesis by blast
qed

theorem C5_no_parameters_no_output_witness:
  "processURL (exampleEnv [] (Inr (exampleDocument []))) ''http://h/page'' [] [] 30 False True True
      ''GET'' [] emptyWorld
    = (None, emptyWorld\<lparr>requests :=
         [(\<lparr>Timeout = 30, Proxy = None, UseLastResponse = False\<rparr>,
           \<lparr>Method = ''GET'',
            RequestURL = new_URL\<lparr>Scheme := ''http'', Host := ''h'', Path := ''/page''\<rparr>,
            Header = []\<rparr>)]\<rparr>)
   \<and> extractParamsFromURL (exampleEnv [] (Inr (exampleDocument []))) ''http://h/page'' [] [] 30
      False True True ''GET'' [] emptyWorld
    = Inr (emptyWorld\<lparr>requests :=
         [(\<lparr>Timeout = 30, Proxy = None, UseLastResponse = False\<rparr>,
           \<lparr>Method = ''GET'',
            RequestURL = new_URL\<lparr>Scheme := ''http'', Host := ''h'', Path := ''/page''\<rparr>,
            Header = []\<rparr>)]\<rparr>)"
proof -
  let ?env = "exampleEnv [] (Inr (exampleDocument []))"
  let ?w1 = "emptyWorld\<lparr>requests :=
         [(\<lparr>Timeout = 30, Proxy = None, UseLastResponse = False\<rparr>,
           \<lparr>Method = ''GET'',
            RequestURL = new_URL\<lparr>Scheme := ''http'', Host := ''h'', Path := ''/page''\<rparr>,
            Header = []\<rparr>)]\<rparr>"
  have f: "fetchBody ?env ''http://h/page'' [] [] 30 False True ''GET'' [] emptyWorld = (Inr [], ?w1)"
    by code_simp
  have c: "createRequestWithCustomHeaders ?env ''http://h/page'' [] [] 30 True ''GET'' [] emptyWorld
      = (Inr \<lparr>Body = Inr []\<rparr>, ?w1)"
    by code_simp
  have e: "extractQueryParamsFromHTML (parseHTML ?env) [] = ([], [])"
    by code_simp
  have e': "extractQueryParamsFromHTML_part_000 (parseHTML ?env) [] = Inr []"
    by code_simp
  show ?thesis
    using C5_no_parameters_no_output [where env = ?env and urlStr = "''http://h/page''"
        and customHeaders = "[]" and proxy = "[]" and timeout = 30 and quiet = False
        and verbose = True and followRedirects = True and reqMethod = "''GET''" and baseURL = "[]"
        and w = emptyWorld and buf = "[]" and ?w1.0 = ?w1 and ?w2.0 = ?w1
        and resp = "\<lparr>Body = Inr []\<rparr>"] f c e e'
    by simp
qed

section \<open>A body that does not parse\<close>

text \<open>
  C8.  When the HTML parser returns an error for the body, both extractors return the
  empty map (that of main.go logs the error), and the caller goes on as for a document
  without parameters: \<^verbatim>\<open>processURL\<close> returns no error, \<^verbatim>\<open>extractParamsFromURL\<close> returns,
  and nothing is written to the output file or to standard output.
\<close>

theorem C8_parse_failure_gives_empty_map:
  assumes "parseHTML env buf = Inl err"
  shows "extractQueryParamsFromHTML (parseHTML env) buf = ([], [LogErrorCreatingDocument err])
   \<and> extractQueryParamsFromHTML_part_000 (parseHTML env) buf = Inr []
   \<and> (fetchBody env urlStr customHeaders proxy timeout quiet followRedirects reqMethod baseURL w
          = (Inr buf, w1)
       \<longrightarrow> processURL env urlStr customHeaders proxy timeout quiet verbose followRedirects
             reqMethod baseURL w
           = (None, w1\<lparr>standardLog := standardLog w1 @ [LogErrorCreatingDocument err]\<rparr>)
         \<and> outputFile w1 = outputFile w
         \<and> standardOutput w1 = standardOutput w)
   \<and> (createRequestWithCustomHeaders env urlStr customHeaders proxy timeout followRedirects
          reqMethod baseURL w = (Inr resp, w2)
        \<and> Body resp = Inr buf
       \<longrightarrow> extractParamsFromURL env urlStr customHeaders proxy timeout quiet verbose
             followRedirects reqMethod baseURL w = Inr w2
         \<and> outputFile w2 = outputFile w
         \<and> standardOutput w2 = standardOutput w)"
proof -
  have 1: "extractQueryParamsFromHTML (parseHTML env) buf = ([], [LogErrorCreatingDocument err])"
    by (simp add: extractQueryParamsFromHTML_def assms)
  have 2: "extractQueryParamsFromHTML_part_000 (parseHTML env) buf = Inr []"
    by (simp add: extractQueryParamsFromHTML_part_000_def assms)
  have 3: "processURL env urlStr customHeaders proxy timeout quiet verbose followRedirects
             reqMethod baseURL w
           = (None, w1\<lparr>standardLog := standardLog w1 @ [LogErrorCreatingDocument err]\<rparr>)
         \<and> outputFile w1 = outputFile w
         \<and> standardOutput w1 = standardOutput w"
    if f: "fetchBody env urlStr customHeaders proxy timeout quiet followRedirects reqMethod baseURL w
          = (Inr buf, w1)"
    using fetchBody_outputFile [of env urlStr customHeaders proxy timeout quiet followRedirects
        reqMethod baseURL w]
      fetchBody_standardOutput [of env urlStr customHeaders proxy timeout quiet followRedirects
        reqMethod baseURL w]
    by (simp add: processURL_def f 1 writeModifiedURL_def Let_def)
  have 4: "extractParamsFromURL env urlStr customHeaders proxy timeout quiet verbose
             followRedirects reqMethod baseURL w = Inr w2
         \<and> outputFile w2 = outputFile w
         \<and> standardOutput w2 = standardOutput w"
    if c: "createRequestWithCustomHeaders env urlStr customHeaders proxy timeout followRedirects
          reqMethod baseURL w = (Inr resp, w2)"
      and b: "Body resp = Inr buf"
    using create_outputFile [of env urlStr customHeaders proxy timeout followRedirects
        reqMethod baseURL w]
      create_standardOutput [of env urlStr customHeaders proxy timeout followRedirects
        reqMethod baseURL w]
    by (simp add: extractParamsFromURL_def c b 2 writeModifiedURL_part_000_def)
  from 1 2 3 4 show ?thesis by blast
qed

theorem C8_parse_failure_gives_empty_map_witness:
  "processURL (exampleEnv ''<p>'' (Inl (ReadError ''unexpected EOF''))) ''http://h/page'' [] [] 30
      False True True ''GET'' [] emptyWorld
    = (None, emptyWorld\<lparr>requests :=
         [(\<lparr>Timeout = 30, Proxy = None, UseLastResponse = False\<rparr>,
           \<lparr>Method = ''GET'',
            RequestURL = new_URL\<lparr>Scheme := ''http'', Host := ''h'', Path := ''/page''\<rparr>,
            Header = []\<rparr>)],
         standardLog := [LogErrorCreatingDocument (ReadError ''unexpected EOF'')]\<rparr>)
   \<and> extractParamsFromURL (exampleEnv ''<p>'' (Inl (ReadError ''unexpected EOF''))) ''http://h/page''
      [] [] 30 False True True ''GET'' [] emptyWorld
    = Inr (emptyWorld\<lparr>requests :=
         [(\<lparr>Timeout = 30, Proxy = None, UseLastResponse = False\<rparr>,
           \<lparr>Method = ''GET'',
            RequestURL = new_URL\<lparr>Scheme := ''http'', Host := ''h'', Path := ''/page''\<rparr>,
            Header = []\<rparr>)]\<rparr>)"
proof -
  let ?env = "exampleEnv ''<p>'' (Inl (ReadError ''unexpected EOF''))"
  let ?w1 = "emptyWorld\<lparr>requests :=
         [(\<lparr>Timeout = 30, Proxy = None, UseLastResponse = False\<rparr>,
           \<lparr>Method = ''GET'',
            RequestURL = new_URL\<lparr>Scheme := ''http'', Host := ''h'', Path := ''/page''\<rparr>,
            Header = []\<rparr>)]\<rparr>"
  have p: "parseHTML ?env ''<p>'' = Inl (ReadError ''unexpected EOF'')"
    by (simp add: exampleEnv_def)
  have f: "fetchBody ?env ''http://h/page'' [] [] 30 False True ''GET'' [] emptyWorld = (Inr ''<p>'', ?w1)"
    by code_simp
  have c: "createRequestWithCustomHeaders ?env ''http://h/page'' [] [] 30 True ''GET'' [] emptyWorld
      = (Inr \<lparr>Body = Inr ''<p>''\<rparr>, ?w1)"
    by code_simp
  show ?thesis
    using C8_parse_failure_gives_empty_map [OF p, where urlStr = "''http://h/page''"
        and customHeaders = "[]" and proxy = "[]" and timeout = 30 and quiet = False
        and verbose = True and followRedirects = True and reqMethod = "''GET''" and baseURL = "[]"
        and w = emptyWorld and ?w1.0 = ?w1 and ?w2.0 = ?w1
        and resp = "\<lparr>Body = Inr ''<p>''\<rparr>"] f c
    by (simp add: emptyWorld_def)
qed



section \<open>The rewritten URL\<close>

lemma String_hier_RawQuery: "String_hier (u\<lparr>RawQuery := q\<rparr>) = String_hier u"
  by (simp add: String_hier_def String_authority_def EscapedPath_def)

lemma String_fragment_RawQuery: "String_fragment (u\<lparr>RawQuery := q\<rparr>) = String_fragment u"
  by (simp add: String_fragment_def EscapedFragment_def)

text \<open>
  C9.  Let the input URL parse and the parameter map be non-empty.  Both files then
  hand to \<^verbatim>\<open>file.WriteString\<close> the printed form of the parsed URL with its \<open>RawQuery\<close>
  replaced by the encoded map, and a line feed.  In that URL the query is the encoded
  map, whatever query the input had, and scheme, host, path and fragment are those of
  the input; in its printed form the part before the query and the fragment part are
  those of the input URL, and between them stands \<open>?\<close> and the encoded map.
\<close>

theorem C9_rewrite_replaces_query_only:
  assumes "url_Parse urlStr = Inr parsedURL" and "queryParameters \<noteq> []"
  shows "outputFile (snd (writeModifiedURL env urlStr quiet verbose queryParameters w))
      = fst (WriteString env (outputFile w)
               (URL_String (parsedURL\<lparr>RawQuery := Values_Encode queryParameters\<rparr>) @ [CHR 0x0A]))
   \<and> map_sum id outputFile (writeModifiedURL_part_000 env urlStr quiet verbose queryParameters w)
      = Inr (fst (WriteString env (outputFile w)
               (URL_String (parsedURL\<lparr>RawQuery := Values_Encode queryParameters\<rparr>) @ [CHR 0x0A])))
   \<and> RawQuery (parsedURL\<lparr>RawQuery := Values_Encode queryParameters\<rparr>)
      = Values_Encode queryParameters
   \<and> Scheme (parsedURL\<lparr>RawQuery := Values_Encode queryParameters\<rparr>) = Scheme parsedURL
   \<and> Host (parsedURL\<lparr>RawQuery := Values_Encode queryParameters\<rparr>) = Host parsedURL
   \<and> Path (parsedURL\<lparr>RawQuery := Values_Encode queryParameters\<rparr>) = Path parsedURL
   \<and> Fragment (parsedURL\<lparr>RawQuery := Values_Encode queryParameters\<rparr>) = Fragment parsedURL
   \<and> URL_String (parsedURL\<lparr>RawQuery := Values_Encode queryParameters\<rparr>)
      = String_hier parsedURL
        @ (if ForceQuery parsedURL \<or> Values_Encode queryParameters \<noteq> []
           then ''?'' @ Values_Encode queryParameters else [])
        @ String_fragment parsedURL"
proof -
  have 1: "outputFile (snd (writeModifiedURL env urlStr quiet verbose queryParameters w))
      = fst (WriteString env (outputFile w)
               (URL_String (parsedURL\<lparr>RawQuery := Values_Encode queryParameters\<rparr>) @ [CHR 0x0A]))"
    using assms by (simp add: writeModifiedURL_def Let_def split: option.splits)
  have 2: "map_sum id outputFile (writeModifiedURL_part_000 env urlStr quiet verbose queryParameters w)
      = Inr (fst (WriteString env (outputFile w)
               (URL_String (parsedURL\<lparr>RawQuery := Values_Encode queryParameters\<rparr>) @ [CHR 0x0A])))"
    using assms by (simp add: writeModifiedURL_part_000_def Let_def split: option.splits)
  have 3: "URL_String (parsedURL\<lparr>RawQuery := Values_Encode queryParameters\<rparr>)
      = String_hier parsedURL
        @ (if ForceQuery parsedURL \<or> Values_Encode queryParameters \<noteq> []
           then ''?'' @ Values_Encode queryParameters else [])
        @ String_fragment parsedURL"
    by (simp add: URL_String_def String_hier_RawQuery String_fragment_RawQuery String_query_def)
  from 1 2 3 show ?thesis by simp
qed

theorem C9_rewrite_replaces_query_only_witness:
  "url_Parse ''http://h/page?old=1#top''
     = Inr (new_URL\<lparr>Scheme := ''http'', Host := ''h'', Path := ''/page'', RawQuery := ''old=1'',
              Fragment := ''top''\<rparr>)
   \<and> outputFile (snd (writeModifiedURL (exampleEnv [] (Inr (exampleDocument [])))
        ''http://h/page?old=1#top'' False False [(''q'', [''FUZZ''])] emptyWorld))
     = ''http://h/page?q=FUZZ#top'' @ [CHR 0x0A]
   \<and> map_sum id outputFile (writeModifiedURL_part_000 (exampleEnv [] (Inr (exampleDocument [])))
        ''http://h/page?old=1#top'' False False [(''q'', [''FUZZ''])] emptyWorld)
     = Inr (''http://h/page?q=FUZZ#top'' @ [CHR 0x0A])"
proof -
  let ?u = "new_URL\<lparr>Scheme := ''http'', Host := ''h'', Path := ''/page'', RawQuery := ''old=1'',
              Fragment := ''top''\<rparr>"
  have p: "url_Parse ''http://h/page?old=1#top'' = Inr ?u"
    by code_simp
  have n: "[(''q'', [''FUZZ''])] \<noteq> ([] :: Values)"
    by simp
  have s: "URL_String (?u\<lparr>RawQuery := Values_Encode [(''q'', [''FUZZ''])]\<rparr>) = ''http://h/page?q=FUZZ#top''"
    by code_simp
  show ?thesis
    using C9_rewrite_replaces_query_only [OF p n,
        where env = "exampleEnv [] (Inr (exampleDocument []))" and quiet = False
          and verbose = False and w = emptyWorld] p
    by (simp only: s) (simp add: exampleEnv_def emptyWorld_def)
qed



section \<open>Merging appends\<close>

text \<open>What \<^verbatim>\<open>v[key]\<close> is after each of the operations that add to the map.\<close>

lemma Values_index_Nil: "Values_index [] k = []"
  by (simp add: Values_index_def)

lemma Values_index_update:
  "Values_index (AList.update key vs v) k = (if k = key then vs else Values_index v k)"
  by (simp add: Values_index_def update_conv')

lemma Values_index_Add:
  "Values_index (Values_Add v key val) k
     = (if k = key then Values_index v key @ [val] else Values_index v k)"
  by (simp add: Values_Add_def Values_index_update)

lemma Values_index_Add_all:
  "Values_index (foldl (\<lambda>p val. Values_Add p key val) p vals) k
     = Values_index p k @ (if k = key then vals else [])"
  by (induction vals arbitrary: p) (auto simp: Values_index_Add)

lemma Values_index_addAll:
  "Values_index (addAll p q) k = Values_index p k @ concat (map snd (filter (\<lambda>e. fst e = k) q))"
  unfolding addAll_def
  by (induction q arbitrary: p) (auto simp: Values_index_Add_all split: prod.splits)

lemma Values_index_mergeQueryParameters:
  "Values_index (mergeQueryParameters p q) k
     = Values_index p k @ concat (map snd (filter (\<lambda>e. fst e = k) q))"
  unfolding mergeQueryParameters_def
  by (induction q arbitrary: p) (auto simp: Values_index_update split: prod.splits)

lemma Values_index_distinct:
  "distinct (map fst q) \<Longrightarrow> concat (map snd (filter (\<lambda>e. fst e = k) q)) = Values_index q k"
proof (induction q)
  case Nil
  then show ?case by (simp add: Values_index_def)
next
  case (Cons e q)
  have notin: "fst e \<notin> fst ` set q"
    using Cons.prems by simp
  then have "\<forall>x\<in>set q. fst x \<noteq> fst e"
    by (metis imageI)
  then have "filter (\<lambda>x. fst x = fst e) q = []"
    by (simp add: filter_empty_conv)
  moreover have "map_of q (fst e) = None"
    using Cons.prems by (simp add: map_of_eq_None_iff)
  ultimately show ?case
    using Cons by (cases e) (auto simp: Values_index_def)
qed

lemma distinct_Values_Add: "distinct (map fst v) \<Longrightarrow> distinct (map fst (Values_Add v key val))"
  by (simp add: Values_Add_def distinct_update)

lemma distinct_parseQuery:
  "distinct (map fst m) \<Longrightarrow> distinct (map fst (fst (parseQuery m err query)))"
proof (induction m err query rule: parseQuery.induct)
  case (1 m err query)
  show ?case
    using 1 by (subst parseQuery.simps) (auto simp: Let_def distinct_Values_Add split: sum.splits)
qed

lemma distinct_URL_Query: "distinct (map fst (URL_Query u))"
  by (simp add: URL_Query_def ParseQuery_def distinct_parseQuery)

lemma Values_index_addAll_Query:
  "Values_index (addAll p (URL_Query u)) k = Values_index p k @ Values_index (URL_Query u) k"
  by (simp add: Values_index_addAll Values_index_distinct distinct_URL_Query)

lemma Values_index_merge_Query:
  "Values_index (mergeQueryParameters p (URL_Query u)) k
     = Values_index p k @ Values_index (URL_Query u) k"
  by (simp add: Values_index_mergeQueryParameters Values_index_distinct distinct_URL_Query)

text \<open>
  The values that the callback of main.go adds under the key \<open>k\<close> for the element \<open>s\<close>:
  the value of a field named \<open>k\<close>, then what the queries of \<open>href\<close> and \<open>action\<close> hold
  for \<open>k\<close>.  The extractor's result under \<open>k\<close> is the concatenation of these over the
  selected elements, in document order (\<open>Values_index_extract\<close>).
\<close>

definition urlValues :: "string \<Rightarrow> Node \<Rightarrow> string \<Rightarrow> string list" where
  "urlValues attrName s k =
     (case Selection_Attr s attrName of
        None \<Rightarrow> []
      | Some rawurl \<Rightarrow>
          (case url_Parse rawurl of Inl err \<Rightarrow> [] | Inr u \<Rightarrow> Values_index (URL_Query u) k))"

definition nameValues :: "Node \<Rightarrow> string \<Rightarrow> string list" where
  "nameValues s k =
     (case Selection_Attr s ''name'' of
        None \<Rightarrow> []
      | Some name \<Rightarrow> if k = name then [Selection_AttrOr s ''value'' ''FUZZ''] else [])"

definition elementValues :: "Node \<Rightarrow> string \<Rightarrow> string list" where
  "elementValues s k = nameValues s k @ urlValues ''href'' s k @ urlValues ''action'' s k"

lemma Values_index_parseURLAndAdd:
  "Values_index (fst (parseURLAndAddQueryParameters rawurl st)) k
     = Values_index (fst st) k
       @ (case url_Parse rawurl of Inl err \<Rightarrow> [] | Inr u \<Rightarrow> Values_index (URL_Query u) k)"
  by (simp add: parseURLAndAddQueryParameters_def Values_index_addAll_Query split: sum.splits)

lemma Values_index_addURLAttr:
  "Values_index (fst (addURLAttr attrName s st)) k = Values_index (fst st) k @ urlValues attrName s k"
  by (simp add: addURLAttr_def urlValues_def Values_index_parseURLAndAdd split: option.splits)

lemma Values_index_addName:
  "Values_index (fst (addName s st)) k = Values_index (fst st) k @ nameValues s k"
  by (simp add: addName_def nameValues_def Values_index_Add split: option.splits)

lemma Values_index_eachElement:
  "Values_index (fst (eachElement s st)) k = Values_index (fst st) k @ elementValues s k"
  by (simp add: eachElement_def elementValues_def Values_index_addURLAttr Values_index_addName)

lemma Values_index_Each:
  "Values_index (fst (foldl (\<lambda>st s. eachElement s st) st ss)) k
     = Values_index (fst st) k @ concat (map (\<lambda>s. elementValues s k) ss)"
  by (induction ss arbitrary: st) (simp_all add: Values_index_eachElement)

lemma Values_index_extract:
  "NewDocumentFromReader responseBody = Inr doc \<Longrightarrow>
   Values_index (fst (extractQueryParamsFromHTML NewDocumentFromReader responseBody)) k
     = concat (map (\<lambda>s. elementValues s k)
         (Find doc [''a'', ''form'', ''input'', ''select'', ''textarea'']))"
  by (simp add: extractQueryParamsFromHTML_def Values_index_Each Values_index_Nil)

text \<open>
  C6.  \<^verbatim>\<open>Values.Add\<close> appends the value to the list of its key and leaves the other
  keys alone; merging the query of a URL, with the loop of main.go or with
  \<^verbatim>\<open>mergeQueryParameters\<close>, appends the query's values for a key to the list the map had
  for it.  So for every selected element with a \<open>name\<close> and an \<open>href\<close> that parses, the
  result of main.go's extractor holds the element's value (or \<open>FUZZ\<close>) under the name,
  and under every key all the values of the \<open>href\<close>'s query for that key.
\<close>

theorem C6_merging_appends:
  "Values_index (Values_Add v key val) k
     = (if k = key then Values_index v key @ [val] else Values_index v k)
   \<and> Values_index (fst (parseURLAndAddQueryParameters rawurl st)) k
     = Values_index (fst st) k
       @ (case url_Parse rawurl of Inl err \<Rightarrow> [] | Inr u \<Rightarrow> Values_index (URL_Query u) k)
   \<and> Values_index (mergeQueryParameters params1 (URL_Query u)) k
     = Values_index params1 k @ Values_index (URL_Query u) k
   \<and> (NewDocumentFromReader responseBody = Inr doc
       \<and> List.member (Find doc [''a'', ''form'', ''input'', ''select'', ''textarea'']) s
       \<and> Selection_Attr s ''name'' = Some name
       \<and> Selection_Attr s ''href'' = Some href
       \<and> url_Parse href = Inr u
      \<longrightarrow> List.member
            (Values_index (fst (extractQueryParamsFromHTML NewDocumentFromReader responseBody)) name)
            (Selection_AttrOr s ''value'' ''FUZZ'')
        \<and> set (Values_index (URL_Query u) k)
          \<subseteq> set (Values_index (fst (extractQueryParamsFromHTML NewDocumentFromReader responseBody)) k))"
proof -
  have "List.member
            (Values_index (fst (extractQueryParamsFromHTML NewDocumentFromReader responseBody)) name)
            (Selection_AttrOr s ''value'' ''FUZZ'')
        \<and> set (Values_index (URL_Query u) k)
          \<subseteq> set (Values_index (fst (extractQueryParamsFromHTML NewDocumentFromReader responseBody)) k)"
    if doc: "NewDocumentFromReader responseBody = Inr doc"
      and s: "s \<in> set (Find doc [''a'', ''form'', ''input'', ''select'', ''textarea''])"
      and name: "Selection_Attr s ''name'' = Some name"
      and href: "Selection_Attr s ''href'' = Some href"
      and u: "url_Parse href = Inr u"
  proof -
    have "Selection_AttrOr s ''value'' ''FUZZ'' \<in> set (elementValues s name)"
      by (simp add: elementValues_def nameValues_def name)
    moreover have "set (Values_index (URL_Query u) k) \<subseteq> set (elementValues s k)"
      by (auto simp: elementValues_def urlValues_def href u)
    ultimately show ?thesis
      using s
      by (auto simp: Values_index_extract [where NewDocumentFromReader = NewDocumentFromReader, OF doc])
  qed
  then show ?thesis
    by (simp add: Values_index_Add Values_index_parseURLAndAdd Values_index_merge_Query)
qed



text \<open>An element that is a form field and a link at once:
  \<^verbatim>\<open><a name="q" value="v" href="/p?x=1&q=2"></a>\<close>.\<close>

definition linkFieldDocument :: Node where
  "linkFieldDocument =
     exampleDocument
       [Node ElementNode ''a''
          [Attribute [] ''name'' ''q'', Attribute [] ''value'' ''v'',
           Attribute [] ''href'' ''/p?x=1&q=2''] []]"

theorem C6_merging_appends_witness:
  "List.member
     (Values_index (fst (extractQueryParamsFromHTML (\<lambda>body. Inr linkFieldDocument)
        ''<a name=\"q\" value=\"v\" href=\"/p?x=1&q=2\"></a>'')) ''q'') ''v''
   \<and> set [''2'']
     \<subseteq> set (Values_index (fst (extractQueryParamsFromHTML (\<lambda>body. Inr linkFieldDocument)
        ''<a name=\"q\" value=\"v\" href=\"/p?x=1&q=2\"></a>'')) ''q'')"
proof -
  let ?s = "Node ElementNode ''a''
          [Attribute [] ''name'' ''q'', Attribute [] ''value'' ''v'',
           Attribute [] ''href'' ''/p?x=1&q=2''] []"
  let ?u = "new_URL\<lparr>Path := ''/p'', RawQuery := ''x=1&q=2''\<rparr>"
  have m: "List.member (Find linkFieldDocument [''a'', ''form'', ''input'', ''select'', ''textarea'']) ?s"
    by code_simp
  have n: "Selection_Attr ?s ''name'' = Some ''q''"
    by code_simp
  have h: "Selection_Attr ?s ''href'' = Some ''/p?x=1&q=2''"
    by code_simp
  have v: "Selection_AttrOr ?s ''value'' ''FUZZ'' = ''v''"
    by code_simp
  have p: "url_Parse ''/p?x=1&q=2'' = Inr ?u"
    by code_simp
  have q: "Values_index (URL_Query ?u) ''q'' = [''2'']"
    by code_simp
  show ?thesis
    using C6_merging_appends [where NewDocumentFromReader = "\<lambda>body. Inr linkFieldDocument"
        and responseBody = "''<a name=\"q\" value=\"v\" href=\"/p?x=1&q=2\"></a>''"
        and doc = linkFieldDocument and s = ?s and name = "''q''" and href = "''/p?x=1&q=2''"
        and u = ?u and k = "''q''"] m n h p
    by (simp only: v q)
qed


section \<open>The form example\<close>

text \<open>The body \<^verbatim>\<open><form action="/search?x=1"><input name="q"></form>\<close> and the tree the
  HTML parser builds for it.\<close>

definition formExampleBody :: string where
  "formExampleBody = ''<form action=\"/search?x=1\"><input name=\"q\"></form>''"

definition formExampleDocument :: Node where
  "formExampleDocument =
     exampleDocument
       [Node ElementNode ''form'' [Attribute [] ''action'' ''/search?x=1'']
          [Node ElementNode ''input'' [Attribute [] ''name'' ''q''] []]]"

lemma formExample_extracted:
  "foldl (\<lambda>st s. eachElement s st) ([], [])
     (Find formExampleDocument [''a'', ''form'', ''input'', ''select'', ''textarea''])
   = ([(''x'', [''1'']), (''q'', [''FUZZ''])], [])"
  by code_simp

lemma formExample_request:
  "NewRequest ''GET'' ''http://h/page''
     = Inr \<lparr>Method = ''GET'',
            RequestURL = new_URL\<lparr>Scheme := ''http'', Host := ''h'', Path := ''/page''\<rparr>,
            Header = []\<rparr>"
  by code_simp

lemma formExample_url:
  "url_Parse ''http://h/page'' = Inr (new_URL\<lparr>Scheme := ''http'', Host := ''h'', Path := ''/page''\<rparr>)"
  by code_simp

lemma formExample_line:
  "URL_String (new_URL\<lparr>Scheme := ''http'', Host := ''h'', Path := ''/page'',
       RawQuery := Values_Encode [(''x'', [''1'']), (''q'', [''FUZZ''])]\<rparr>)
     = ''http://h/page?q=FUZZ&x=1''"
  by code_simp

text \<open>
  In main.go: let the parser give the tree above for the body above, the server answer
  with that body, and the file system append.  Then the extractor of main.go returns
  the map with \<open>x\<close> for \<open>["1"]\<close> and \<open>q\<close> for \<open>["FUZZ"]\<close>, and \<^verbatim>\<open>processURL\<close> on
  \<^verbatim>\<open>http://h/page\<close> returns no error and appends the line
  \<^verbatim>\<open>http://h/page?q=FUZZ&x=1\<close> to the output file.
\<close>

theorem main_go_form_example:
  assumes "parseHTML env formExampleBody = Inr formExampleDocument"
    and "client_Do env = (\<lambda>client req. Inr \<lparr>Body = Inr formExampleBody\<rparr>)"
    and "WriteString env = (\<lambda>content s. (content @ s, None))"
  shows "map_of (fst (extractQueryParamsFromHTML (parseHTML env) formExampleBody))
      = [''x'' \<mapsto> [''1''], ''q'' \<mapsto> [''FUZZ'']]
    \<and> fst (processURL env ''http://h/page'' [] [] timeout quiet verbose followRedirects ''GET'' [] w)
      = None
    \<and> outputFile (snd (processURL env ''http://h/page'' [] [] timeout quiet verbose
                          followRedirects ''GET'' [] w))
      = outputFile w @ ''http://h/page?q=FUZZ&x=1'' @ [CHR 0x0A]"
proof -
  have e: "extractQueryParamsFromHTML (parseHTML env) formExampleBody
      = ([(''x'', [''1'']), (''q'', [''FUZZ''])], [])"
    by (simp add: extractQueryParamsFromHTML_def assms(1) formExample_extracted)
  have f: "fetchBody env ''http://h/page'' [] [] timeout quiet followRedirects ''GET'' [] w
      = (Inr formExampleBody,
         w\<lparr>requests := requests w
              @ [(\<lparr>Timeout = timeout, Proxy = None, UseLastResponse = \<not> followRedirects\<rparr>,
                  \<lparr>Method = ''GET'',
                   RequestURL = new_URL\<lparr>Scheme := ''http'', Host := ''h'', Path := ''/page''\<rparr>,
                   Header = []\<rparr>)]\<rparr>)"
    by (simp add: fetchBody_def formExample_request assms(2) Let_def)
  have w: "writeModifiedURL env ''http://h/page'' quiet verbose
             [(''x'', [''1'']), (''q'', [''FUZZ''])] w'
      = (None,
         (if verbose
          then w'\<lparr>outputFile := outputFile w' @ ''http://h/page?q=FUZZ&x=1'' @ [CHR 0x0A],
                   standardOutput := standardOutput w'
                     @ verboseLines ''http://h/page'' [(''x'', [''1'']), (''q'', [''FUZZ''])]\<rparr>
          else w'\<lparr>outputFile := outputFile w' @ ''http://h/page?q=FUZZ&x=1'' @ [CHR 0x0A]\<rparr>))"
    for w'
    by (simp add: writeModifiedURL_def formExample_url formExample_line assms(3) Let_def
        del: append.simps)
  have m: "map_of [(''x'', [''1'']), (''q'', [''FUZZ''])] = [''x'' \<mapsto> [''1''], ''q'' \<mapsto> [''FUZZ'']]"
    by (auto simp: fun_eq_iff)
  show ?thesis
    by (simp add: e m processURL_def f w Let_def del: append.simps map_of.simps)
qed

theorem main_go_form_example_witness:
  "map_of (fst (extractQueryParamsFromHTML
       (parseHTML (exampleEnv formExampleBody (Inr formExampleDocument))) formExampleBody))
      = [''x'' \<mapsto> [''1''], ''q'' \<mapsto> [''FUZZ'']]
   \<and> fst (processURL (exampleEnv formExampleBody (Inr formExampleDocument)) ''http://h/page'' [] []
        30 False False True ''GET'' [] emptyWorld) = None
   \<and> outputFile (snd (processURL (exampleEnv formExampleBody (Inr formExampleDocument))
        ''http://h/page'' [] [] 30 False False True ''GET'' [] emptyWorld))
      = ''http://h/page?q=FUZZ&x=1'' @ [CHR 0x0A]"
proof -
  let ?env = "exampleEnv formExampleBody (Inr formExampleDocument)"
  have 1: "parseHTML ?env formExampleBody = Inr formExampleDocument"
    by (simp add: exampleEnv_def)
  have 2: "client_Do ?env = (\<lambda>client req. Inr \<lparr>Body = Inr formExampleBody\<rparr>)"
    by (simp add: exampleEnv_def)
  have 3: "WriteString ?env = (\<lambda>content s. (content @ s, None))"
    by (simp add: exampleEnv_def)
  show ?thesis
    using main_go_form_example [OF 1 2 3, where timeout = 30 and quiet = False and verbose = False
        and followRedirects = True and w = emptyWorld]
    by (simp add: emptyWorld_def)
qed

text \<open>\<^verbatim>\<open>Find\<close> returns, in document order, exactly the nodes below the root that the
  selector matches; \<open>subtree\<close> is a node and everything below it.\<close>

fun subtree :: "Node \<Rightarrow> Node list" where
  "subtree (Node t d a cs) = Node t d a cs # concat (map subtree cs)"

lemma matchAll_subtree: "matchAll tags n = filter (matches tags) (subtree n)"
proof (induction n)
  case (Node t d a cs)
  then have m: "map (matchAll tags) cs = map (\<lambda>c. filter (matches tags) (subtree c)) cs"
    by simp
  show ?case
    by (simp only: matchAll.simps m) (simp add: filter_concat comp_def)
qed

lemma Find_subtree:
  "Find root tags
     = filter (matches tags)
         (concat (map subtree (filter (\<lambda>c. Type c = ElementNode) (children root))))"
proof -
  have "matchAll tags = (\<lambda>n. filter (matches tags) (subtree n))"
    by (rule ext) (rule matchAll_subtree)
  then show ?thesis
    by (simp add: Find_def filter_concat comp_def)
qed

text \<open>
  C2 fails on the second file.  For the body
  \<^verbatim>\<open><form action="/search?x=1"><input name="q"></form>\<close> and the URL \<^verbatim>\<open>http://h/page\<close> the
  claim expects the map with \<open>x\<close> for \<open>["1"]\<close> and \<open>q\<close> for \<open>["FUZZ"]\<close> and the line
  \<^verbatim>\<open>http://h/page?q=FUZZ&x=1\<close>, every \<open>a\<close>, \<open>form\<close>, \<open>input\<close>, \<open>select\<close> and
  \<open>textarea\<close> being scanned and \<open>action\<close> read.  The second file selects
  \<open>input\<close>, \<open>select\<close>, \<open>textarea\<close> and \<open>a\<close> only and reads \<open>href\<close> and \<open>src\<close>: it
  selects the field alone, returns the map with \<open>q\<close> only and writes
  \<^verbatim>\<open>http://h/page?q=FUZZ\<close>.  main.go selects the form and the field and gives what the
  claim says.
\<close>

theorem C2_second_file_misses_form_action:
  "Find formExampleDocument [''input'', ''select'', ''textarea'', ''a'']
     = [Node ElementNode ''input'' [Attribute [] ''name'' ''q''] []]
   \<and> extractQueryParamsFromHTML_part_000
       (parseHTML (exampleEnv formExampleBody (Inr formExampleDocument))) formExampleBody
     = Inr [(''q'', [''FUZZ''])]
   \<and> map_sum id outputFile
       (extractParamsFromURL (exampleEnv formExampleBody (Inr formExampleDocument))
          ''http://h/page'' [] [] 30 False False True ''GET'' [] emptyWorld)
     = Inr (''http://h/page?q=FUZZ'' @ [CHR 0x0A])
   \<and> Find formExampleDocument [''a'', ''form'', ''input'', ''select'', ''textarea'']
     = [Node ElementNode ''form'' [Attribute [] ''action'' ''/search?x=1'']
          [Node ElementNode ''input'' [Attribute [] ''name'' ''q''] []],
        Node ElementNode ''input'' [Attribute [] ''name'' ''q''] []]
   \<and> fst (extractQueryParamsFromHTML
       (parseHTML (exampleEnv formExampleBody (Inr formExampleDocument))) formExampleBody)
     = [(''x'', [''1'']), (''q'', [''FUZZ''])]
   \<and> outputFile (snd (processURL (exampleEnv formExampleBody (Inr formExampleDocument))
        ''http://h/page'' [] [] 30 False False True ''GET'' [] emptyWorld))
     = ''http://h/page?q=FUZZ&x=1'' @ [CHR 0x0A]"
  by code_simp


section \<open>Values that stay empty\<close>

text \<open>The body \<^verbatim>\<open><input name="q" value="">\<close> as the HTML parser reads it.\<close>

definition emptyValueDocument :: Node where
  "emptyValueDocument =
     exampleDocument
       [Node ElementNode ''input'' [Attribute [] ''name'' ''q'', Attribute [] ''value'' []] []]"

text \<open>
  C1 fails on main.go.  For a field whose \<open>value\<close> attribute is present and empty, the
  extractor of main.go returns the empty string as the value of \<open>q\<close>: \<open>FUZZ\<close> is only
  the default for an attribute that is absent, and no pass over the map follows.  The
  second file's extractor returns \<open>FUZZ\<close> for the same document.
\<close>

theorem C1_empty_value_is_kept:
  "extractQueryParamsFromHTML (\<lambda>body. Inr emptyValueDocument) ''<input name=\"q\" value=\"\">''
     = ([(''q'', [[]])], [])
   \<and> extractQueryParamsFromHTML_part_000 (\<lambda>body. Inr emptyValueDocument)
       ''<input name=\"q\" value=\"\">''
     = Inr [(''q'', [''FUZZ''])]"
  by code_simp

text \<open>
  The second file's extractor passes every value through \<open>fuzzIfEmpty\<close> before it
  returns: whenever it returns, no value of the map is empty, and each is \<open>FUZZ\<close> or a
  trimmed string that is not empty.
\<close>

lemma fuzzIfEmpty_not_empty: "fuzzIfEmpty x \<noteq> []"
  by (simp add: fuzzIfEmpty_def Let_def)

lemma fuzzIfEmpty_cases: "fuzzIfEmpty x = ''FUZZ'' \<or> fuzzIfEmpty x = TrimSpace x"
  by (simp add: fuzzIfEmpty_def Let_def)

lemma Values_index_map_values:
  "Values_index (map (\<lambda>(key, vals). (key, map f vals)) v) k = map f (Values_index v k)"
  by (induction v) (auto simp: Values_index_def)

theorem second_file_values_not_empty:
  assumes "extractQueryParamsFromHTML_part_000 NewDocumentFromReader responseBody
             = Inr queryParameters"
    and "List.member (Values_index queryParameters key) val"
  shows "val \<noteq> [] \<and> (val = ''FUZZ'' \<or> (\<exists>raw. val = TrimSpace raw \<and> TrimSpace raw \<noteq> []))"
proof -
  have "\<exists>qp. queryParameters = map (\<lambda>(key, vals). (key, map fuzzIfEmpty vals)) qp"
    using assms(1)
    by (auto simp: extractQueryParamsFromHTML_part_000_def split: sum.splits)
  then obtain qp where "Values_index queryParameters key = map fuzzIfEmpty (Values_index qp key)"
    using Values_index_map_values [of fuzzIfEmpty _ key] by auto
  then obtain x where "val = fuzzIfEmpty x"
    using assms(2) by auto
  then show ?thesis
    using fuzzIfEmpty_not_empty [of x] fuzzIfEmpty_cases [of x] by metis
qed

theorem second_file_values_not_empty_witness:
  "extractQueryParamsFromHTML_part_000 (\<lambda>body. Inr emptyValueDocument) ''<input name=\"q\" value=\"\">''
     = Inr [(''q'', [''FUZZ''])]
   \<and> List.member (Values_index [(''q'', [''FUZZ''])] ''q'') ''FUZZ''
   \<and> ''FUZZ'' \<noteq> []"
proof -
  have e: "extractQueryParamsFromHTML_part_000 (\<lambda>body. Inr emptyValueDocument)
      ''<input name=\"q\" value=\"\">'' = Inr [(''q'', [''FUZZ''])]"
    by code_simp
  have m: "List.member (Values_index [(''q'', [''FUZZ''])] ''q'') ''FUZZ''"
    by code_simp
  show ?thesis
    using second_file_values_not_empty [OF e m] e m by simp
qed

section \<open>A link that does not parse\<close>

text \<open>The body \<^verbatim>\<open><a href=":">x</a><input name="q">\<close> as the HTML parser reads it.\<close>

definition malformedLinkDocument :: Node where
  "malformedLinkDocument =
     exampleDocument
       [Node ElementNode ''a'' [Attribute [] ''href'' '':''] [Node TextNode ''x'' [] []],
        Node ElementNode ''input'' [Attribute [] ''name'' ''q''] []]"

text \<open>
  C3 fails on the second file.  \<^verbatim>\<open>url.Parse\<close> rejects \<open>:\<close> (missing protocol scheme); the
  second file's extractor drops the error and calls \<^verbatim>\<open>Query\<close> on the nil URL, so the
  extraction panics and the field \<open>q\<close> is never reached.  The extractor of main.go
  logs the error and returns the parameter of the field.
\<close>

theorem C3_malformed_href_panics:
  "url_Parse '':'' = Inl (Error ''parse'' '':'' MissingProtocolScheme)
   \<and> extractQueryParamsFromHTML_part_000 (\<lambda>body. Inr malformedLinkDocument)
       ''<a href=\":\">x</a><input name=\"q\">''
     = Inl NilPointerDereference
   \<and> extractQueryParamsFromHTML (\<lambda>body. Inr malformedLinkDocument)
       ''<a href=\":\">x</a><input name=\"q\">''
     = ([(''q'', [''FUZZ''])],
        [LogErrorParsingURL '':'' (Error ''parse'' '':'' MissingProtocolScheme)])"
  by code_simp


text \<open>
  In main.go a URL that does not parse adds nothing and leaves a log entry; the result
  under a key is the concatenation, over the selected elements in document order, of
  what each element adds, and an attribute whose URL does not parse adds the empty
  list.
\<close>

theorem main_go_skips_malformed_url:
  "(url_Parse rawurl = Inl err
     \<longrightarrow> parseURLAndAddQueryParameters rawurl st
         = (fst st, snd st @ [LogErrorParsingURL rawurl err]))
   \<and> (NewDocumentFromReader responseBody = Inr doc
     \<longrightarrow> Values_index (fst (extractQueryParamsFromHTML NewDocumentFromReader responseBody)) k
         = concat (map (\<lambda>s. elementValues s k)
             (Find doc [''a'', ''form'', ''input'', ''select'', ''textarea''])))
   \<and> (Selection_Attr s attrName = Some rawurl \<and> url_Parse rawurl = Inl err
     \<longrightarrow> urlValues attrName s k = [])"
  using Values_index_extract [of NewDocumentFromReader responseBody doc k]
  by (simp add: parseURLAndAddQueryParameters_def urlValues_def)

theorem main_go_skips_malformed_url_witness:
  "parseURLAndAddQueryParameters '':'' ([(''q'', [''1''])], [])
     = ([(''q'', [''1''])], [LogErrorParsingURL '':'' (Error ''parse'' '':'' MissingProtocolScheme)])
   \<and> Values_index (fst (extractQueryParamsFromHTML (\<lambda>body. Inr malformedLinkDocument)
        ''<a href=\":\">x</a><input name=\"q\">'')) ''q'' = [''FUZZ'']"
proof -
  have p: "url_Parse '':'' = Inl (Error ''parse'' '':'' MissingProtocolScheme)"
    by code_simp
  have c: "concat (map (\<lambda>s. elementValues s ''q'')
             (Find malformedLinkDocument [''a'', ''form'', ''input'', ''select'', ''textarea'']))
      = [''FUZZ'']"
    by code_simp
  show ?thesis
    using main_go_skips_malformed_url [where rawurl = "'':''"
        and err = "Error ''parse'' '':'' MissingProtocolScheme"
        and st = "([(''q'', [''1''])], [])"
        and NewDocumentFromReader = "\<lambda>body. Inr malformedLinkDocument"
        and responseBody = "''<a href=\":\">x</a><input name=\"q\">''"
        and doc = malformedLinkDocument and k = "''q''"] p
    by (simp only: c) simp
qed


end
